theory Spec2Isabelle
  imports Complex_Main
begin

section \<open>Values of the language and of the decimal library\<close>

text \<open>
  The server is one JavaScript module in two revisions: \<^verbatim>\<open>src/unnamed/part_000\<close>
  (the handler fetches the vault itself, filters strictly and does not sort) and the
  module that follows the lint configuration in \<^verbatim>\<open>src/.eslintrc.js\<close> (the vault
  fetch is wrapped in \<^verbatim>\<open>getHighestBidSoFar\<close>, the filter is the margin threshold alone
  and the result is sorted and reversed). Functions that are the same text in both
  revisions are defined once; the functions of the second revision that differ carry the
  suffix \<open>_alt\<close>.

  A thrown JavaScript error is a value \<open>Error message\<close>; a promise that rejects and a
  function that throws are both \<open>Inl error\<close>, a normal return is \<open>Inr value\<close>.
  \<^verbatim>\<open>undefined\<close> and \<^verbatim>\<open>null\<close> are \<open>None\<close>.
\<close>

datatype error = Error (message: string)

text \<open>Calling a method on \<^verbatim>\<open>undefined\<close> or \<^verbatim>\<open>null\<close> throws a TypeError.\<close>

definition TypeError :: error where
  "TypeError = Error ''Cannot read properties of undefined or null''"

text \<open>\<^verbatim>\<open>String.prototype.includes\<close>: the pattern occurs somewhere in the string.\<close>

fun includes_str :: "string \<Rightarrow> string \<Rightarrow> bool" where
  "includes_str [] p = (p = [])"
| "includes_str (c # s) p = (take (length p) (c # s) = p \<or> includes_str s p)"

text \<open>
  \<^verbatim>\<open>String.prototype.split\<close> with a one-character separator: the pieces between the
  separators, always at least one piece.
\<close>

fun split :: "char \<Rightarrow> string \<Rightarrow> string list" where
  "split sep [] = [[]]"
| "split sep (c # s) =
     (if c = sep then [] # split sep s
      else (case split sep s of [] \<Rightarrow> [[c]] | w # ws \<Rightarrow> (c # w) # ws))"

text \<open>
  Array destructuring \<^verbatim>\<open>const [a, b] = list\<close>: a position beyond the end of the list
  is \<^verbatim>\<open>undefined\<close>.
\<close>

fun element :: "'a list \<Rightarrow> nat \<Rightarrow> 'a option" where
  "element [] n = None"
| "element (x # xs) 0 = Some x"
| "element (x # xs) (Suc n) = element xs n"

text \<open>A template literal prints \<^verbatim>\<open>undefined\<close> as the word.\<close>

definition template :: "string option \<Rightarrow> string" where
  "template s = (case s of None \<Rightarrow> ''undefined'' | Some t \<Rightarrow> t)"

text \<open>The decimal digits of a number, as a template literal prints a batch index.\<close>

fun show_nat :: "nat \<Rightarrow> string" where
  "show_nat n =
     (if n < 10 then [''0123456789'' ! n]
      else show_nat (n div 10) @ [''0123456789'' ! (n mod 10)])"

declare show_nat.simps [simp del]

subsection \<open>BigNumber\<close>

text \<open>
  Modelled from the spec: the decimal type is the external library bignumber.js, which
  is not part of the repository. The spec asks for exact decimal arithmetic, so a finite
  value is a rational number and sums, differences and products of finite values are
  exact. The library's values also include the two infinities and NaN, and its
  operations follow the rules written out below (NaN is absorbing, a nonzero value
  divided by zero is an infinity, zero divided by zero is NaN, every comparison with NaN
  is false). The library rounds a quotient to a configured number of decimal places; the
  rounding is a parameter of \<open>dividedBy\<close>. The sign of a zero is not kept.
\<close>

datatype BigNumber = Finite rat | PosInfinity | NegInfinity | NaN

definition infinity :: "bool \<Rightarrow> BigNumber" where
  "infinity negative = (if negative then NegInfinity else PosInfinity)"

fun is_negative :: "BigNumber \<Rightarrow> bool" where
  "is_negative (Finite a) = (a < 0)"
| "is_negative NegInfinity = True"
| "is_negative PosInfinity = False"
| "is_negative NaN = False"

fun plus_bn :: "BigNumber \<Rightarrow> BigNumber \<Rightarrow> BigNumber" where
  "plus_bn NaN y = NaN"
| "plus_bn x NaN = NaN"
| "plus_bn (Finite a) (Finite b) = Finite (a + b)"
| "plus_bn (Finite a) y = y"
| "plus_bn x (Finite b) = x"
| "plus_bn PosInfinity PosInfinity = PosInfinity"
| "plus_bn NegInfinity NegInfinity = NegInfinity"
| "plus_bn PosInfinity NegInfinity = NaN"
| "plus_bn NegInfinity PosInfinity = NaN"

fun negated :: "BigNumber \<Rightarrow> BigNumber" where
  "negated (Finite a) = Finite (- a)"
| "negated PosInfinity = NegInfinity"
| "negated NegInfinity = PosInfinity"
| "negated NaN = NaN"

definition minus_bn :: "BigNumber \<Rightarrow> BigNumber \<Rightarrow> BigNumber" where
  "minus_bn x y = plus_bn x (negated y)"

fun multipliedBy :: "BigNumber \<Rightarrow> BigNumber \<Rightarrow> BigNumber" where
  "multipliedBy NaN y = NaN"
| "multipliedBy x NaN = NaN"
| "multipliedBy (Finite a) (Finite b) = Finite (a * b)"
| "multipliedBy (Finite a) y = (if a = 0 then NaN else infinity ((a < 0) \<noteq> is_negative y))"
| "multipliedBy x (Finite b) = (if b = 0 then NaN else infinity (is_negative x \<noteq> (b < 0)))"
| "multipliedBy x y = infinity (is_negative x \<noteq> is_negative y)"

fun dividedBy :: "(rat \<Rightarrow> rat) \<Rightarrow> BigNumber \<Rightarrow> BigNumber \<Rightarrow> BigNumber" where
  "dividedBy rnd NaN y = NaN"
| "dividedBy rnd x NaN = NaN"
| "dividedBy rnd (Finite a) (Finite b) =
     (if b = 0 then (if a = 0 then NaN else infinity (a < 0))
      else Finite (rnd (a / b)))"
| "dividedBy rnd (Finite a) y = Finite 0"
| "dividedBy rnd x (Finite b) = infinity (is_negative x \<noteq> (b < 0))"
| "dividedBy rnd x y = NaN"

text \<open>\<^verbatim>\<open>compare\<close> is \<^verbatim>\<open>null\<close> when either side is NaN, else \<open>-1\<close>, \<open>0\<close> or \<open>1\<close>.\<close>

fun compare :: "BigNumber \<Rightarrow> BigNumber \<Rightarrow> int option" where
  "compare NaN y = None"
| "compare x NaN = None"
| "compare (Finite a) (Finite b) = Some (if a < b then - 1 else if a = b then 0 else 1)"
| "compare PosInfinity PosInfinity = Some 0"
| "compare NegInfinity NegInfinity = Some 0"
| "compare PosInfinity y = Some 1"
| "compare NegInfinity y = Some (- 1)"
| "compare x PosInfinity = Some (- 1)"
| "compare x NegInfinity = Some 1"

definition isGreaterThan :: "BigNumber \<Rightarrow> BigNumber \<Rightarrow> bool" where
  "isGreaterThan x y = (case compare x y of None \<Rightarrow> False | Some c \<Rightarrow> c > 0)"

definition isLessThan :: "BigNumber \<Rightarrow> BigNumber \<Rightarrow> bool" where
  "isLessThan x y = (case compare x y of None \<Rightarrow> False | Some c \<Rightarrow> c < 0)"

definition isGreaterThanOrEqualTo :: "BigNumber \<Rightarrow> BigNumber \<Rightarrow> bool" where
  "isGreaterThanOrEqualTo x y = (compare x y = Some 1 \<or> compare x y = Some 0)"

text \<open>
  The library's default rounding of a quotient: to \<open>dp\<close> decimal places, half away from
  zero (its defaults are 20 places and ROUND_HALF_UP).
\<close>

definition round_half_up :: "nat \<Rightarrow> rat \<Rightarrow> rat" where
  "round_half_up dp q = sgn q * of_int \<lfloor>\<bar>q\<bar> * 10 ^ dp + 1 / 2\<rfloor> / 10 ^ dp"

text \<open>
  The constructor applied to a string: the plain decimal literals (an optional minus
  sign, digits with an optional fraction, an optional exponent) and the words
  \<^verbatim>\<open>Infinity\<close> and \<^verbatim>\<open>-Infinity\<close>; every other string is NaN. (The library also
  accepts padding blanks, a leading plus sign and prefixed binary, octal and hexadecimal
  literals; the node's amounts and the examples of the spec use none of them.)
\<close>

definition is_digit :: "char \<Rightarrow> bool" where
  "is_digit c = (c \<in> set ''0123456789'')"

definition digit_value :: "char \<Rightarrow> nat" where
  "digit_value c = length (takeWhile (\<lambda>d. d \<noteq> c) ''0123456789'')"

definition digits_value :: "string \<Rightarrow> nat" where
  "digits_value ds = foldl (\<lambda>n c. 10 * n + digit_value c) 0 ds"

definition parse_mantissa :: "string \<Rightarrow> rat option" where
  "parse_mantissa s =
     (let ip = takeWhile is_digit s; rest = dropWhile is_digit s
      in case rest of
           [] \<Rightarrow> if ip = [] then None else Some (of_nat (digits_value ip))
         | c # fp \<Rightarrow>
             if c = CHR ''.'' \<and> list_all is_digit fp \<and> (ip \<noteq> [] \<or> fp \<noteq> [])
             then Some (of_nat (digits_value ip) + of_nat (digits_value fp) / 10 ^ length fp)
             else None)"

definition parse_exponent :: "string \<Rightarrow> int option" where
  "parse_exponent s =
     (case s of
        [] \<Rightarrow> None
      | c # ds \<Rightarrow>
          if c = CHR ''-'' \<or> c = CHR ''+''
          then (if ds \<noteq> [] \<and> list_all is_digit ds
                then Some ((if c = CHR ''-'' then - 1 else 1) * int (digits_value ds))
                else None)
          else (if list_all is_digit (c # ds) then Some (int (digits_value (c # ds)))
                else None))"

definition parse_unsigned :: "string \<Rightarrow> rat option" where
  "parse_unsigned s =
     (let m = takeWhile (\<lambda>c. c \<noteq> CHR ''e'' \<and> c \<noteq> CHR ''E'') s;
          rest = dropWhile (\<lambda>c. c \<noteq> CHR ''e'' \<and> c \<noteq> CHR ''E'') s
      in case rest of
           [] \<Rightarrow> parse_mantissa m
         | c # ex \<Rightarrow>
             (case (parse_mantissa m, parse_exponent ex) of
                (Some q, Some k) \<Rightarrow> Some (q * (if k < 0 then 1 / 10 ^ nat (- k) else 10 ^ nat k))
              | _ \<Rightarrow> None))"

definition BigNumber_of_string :: "string \<Rightarrow> BigNumber" where
  "BigNumber_of_string s =
     (if s = ''Infinity'' then PosInfinity
      else if s = ''-Infinity'' then NegInfinity
      else (case s of
              [] \<Rightarrow> NaN
            | c # t \<Rightarrow>
                if c = CHR ''-''
                then (case parse_unsigned t of None \<Rightarrow> NaN | Some q \<Rightarrow> Finite (- q))
                else (case parse_unsigned s of None \<Rightarrow> NaN | Some q \<Rightarrow> Finite q)))"

text \<open>
  An argument of an arithmetic method goes through the constructor: a string is parsed,
  \<^verbatim>\<open>undefined\<close> and \<^verbatim>\<open>null\<close> are NaN, a BigNumber is itself.
\<close>

definition of_amount :: "string option \<Rightarrow> BigNumber" where
  "of_amount a = (case a of None \<Rightarrow> NaN | Some s \<Rightarrow> BigNumber_of_string s)"

definition of_nullable :: "BigNumber option \<Rightarrow> BigNumber" where
  "of_nullable v = (case v of None \<Rightarrow> NaN | Some x \<Rightarrow> x)"

section \<open>The data source\<close>

text \<open>
  The objects the node's RPC client returns. A batch of a vault in liquidation has an
  index, the loan as \<^verbatim>\<open>amount@symbol\<close>, the collaterals in the same form and, once a
  bid was placed, the highest bid. A vault that is not in liquidation has no
  \<^verbatim>\<open>batches\<close>. A pool pair object has one entry per pool id; each entry carries the two
  reserve ratios.
\<close>

record highest_bid =
  owner :: string
  amount :: string

record batch =
  index :: nat
  loan :: string
  collaterals :: "string list"
  highestBid :: "highest_bid option"

record vault =
  vaultId :: string
  liquidationHeight :: "nat option"
  batches :: "batch list option"

text \<open>A batch of the flattened auction list: \<^verbatim>\<open>{ ...batch, vaultId }\<close>.\<close>

record auction = batch +
  vaultId :: string

record pool_pair =
  reserveA_reserveB :: BigNumber
  reserveB_reserveA :: BigNumber

text \<open>
  The RPC client and the decimal library's configuration, fixed for one request: each
  call of the client either rejects with an error or resolves with an object, and the
  same call gives the same answer during the request. \<open>ROUNDING\<close> is the library's
  rounding of a quotient.
\<close>

record env =
  listAuctions :: "int option \<Rightarrow> error + vault list"
  getVault :: "string \<Rightarrow> error + vault"
  getPoolPair :: "string \<Rightarrow> error + pool_pair list"
  ROUNDING :: "rat \<Rightarrow> rat"

text \<open>
  A method called on a value that may be \<^verbatim>\<open>undefined\<close> or \<^verbatim>\<open>null\<close> throws a
  TypeError there.
\<close>

definition on_object :: "'a option \<Rightarrow> ('a \<Rightarrow> 'b) \<Rightarrow> error + 'b" where
  "on_object obj f = (case obj of None \<Rightarrow> Inl TypeError | Some x \<Rightarrow> Inr (f x))"

text \<open>
  \<^verbatim>\<open>Promise.all\<close>: rejects when one of the promises rejects, else resolves with all the
  values in order. (When several reject, the model reports the first of the list; the
  callers never look at which error it was.)
\<close>

fun Promise_all :: "(error + 'a) list \<Rightarrow> error + 'a list" where
  "Promise_all [] = Inr []"
| "Promise_all (p # ps) =
     (case p of
        Inl e \<Rightarrow> Inl e
      | Inr v \<Rightarrow> (case Promise_all ps of Inl e \<Rightarrow> Inl e | Inr vs \<Rightarrow> Inr (v # vs)))"

section \<open>The valuation functions\<close>

definition getAvailableAuctions :: "env \<Rightarrow> int option \<Rightarrow> error + auction list" where
  "getAvailableAuctions env limit =
     (case listAuctions env limit of
        Inl e \<Rightarrow> Inl e
      | Inr availableAuctions \<Rightarrow>
          foldl (\<lambda>acc v.
                   case acc of
                     Inl e \<Rightarrow> Inl e
                   | Inr acc' \<Rightarrow>
                       (case on_object (batches v)
                               (map (\<lambda>b. batch.extend b \<lparr>auction.vaultId = vault.vaultId v\<rparr>)) of
                          Inl e \<Rightarrow> Inl e
                        | Inr transformedBatches \<Rightarrow> Inr (acc' @ transformedBatches)))
                (Inr []) availableAuctions)"

text \<open>
  \<^verbatim>\<open>getPriceInDUSD\<close>: the \<^verbatim>\<open>try\<close> block looks the direct pool up; the \<^verbatim>\<open>catch\<close> block
  takes the two-hop path when the message of the error includes \<^verbatim>\<open>Pool not found\<close>
  (an error thrown there is not caught) and returns \<^verbatim>\<open>null\<close> for every other error.
\<close>

definition getPriceInDUSD :: "env \<Rightarrow> string option \<Rightarrow> string option \<Rightarrow> error + BigNumber option" where
  "getPriceInDUSD env amount' symbol =
     (let attempt =
        (if symbol = Some ''DFI'' then
           (case getPoolPair env ''DUSD-DFI'' of
              Inl e \<Rightarrow> Inl e
            | Inr poolPair \<Rightarrow>
                on_object (element (map reserveA_reserveB poolPair) 0)
                  (\<lambda>rate. multipliedBy rate (of_amount amount')))
         else
           (case getPoolPair env (template symbol @ ''-DUSD'') of
              Inl e \<Rightarrow> Inl e
            | Inr poolPair \<Rightarrow>
                on_object (element (map reserveB_reserveA poolPair) 0)
                  (\<lambda>rate. multipliedBy rate (of_amount amount'))))
      in case attempt of
           Inr price \<Rightarrow> Inr (Some price)
         | Inl error \<Rightarrow>
             if includes_str (message error) ''Pool not found'' then
               (case Promise_all [getPoolPair env (template symbol @ ''-DFI''),
                                  getPoolPair env ''DUSD-DFI''] of
                  Inl e \<Rightarrow> Inl e
                | Inr pairs \<Rightarrow>
                    (let firstPair = (case element pairs 0 of None \<Rightarrow> [] | Some p \<Rightarrow> p);
                         secondPair = (case element pairs 1 of None \<Rightarrow> [] | Some p \<Rightarrow> p);
                         firstRate = element (map reserveB_reserveA firstPair) 0;
                         secondRate = element (map reserveA_reserveB secondPair) 0
                     in case on_object firstRate
                               (\<lambda>rate. multipliedBy (multipliedBy rate (of_amount amount'))
                                          (of_nullable secondRate)) of
                          Inl e \<Rightarrow> Inl e
                        | Inr price \<Rightarrow> Inr (Some price)))
             else Inr None)"

text \<open>\<^verbatim>\<open>getMaxPrice\<close> (part_000): every error is caught and gives \<^verbatim>\<open>null\<close>.\<close>

definition getMaxPrice :: "env \<Rightarrow> BigNumber \<Rightarrow> string option \<Rightarrow> BigNumber option" where
  "getMaxPrice env amount' symbol =
     (case getPoolPair env (template symbol @ ''-DUSD'') of
        Inl e \<Rightarrow> None
      | Inr poolPair \<Rightarrow>
          (case on_object (element (map reserveA_reserveB poolPair) 0)
                  (\<lambda>rate. multipliedBy (multipliedBy rate amount') (BigNumber_of_string ''0.99'')) of
             Inl e \<Rightarrow> None
           | Inr price \<Rightarrow> Some price))"

text \<open>
  \<^verbatim>\<open>vault.batches?.[batchIndex]?.highestBid\<close>: \<^verbatim>\<open>undefined\<close> when the vault has no
  batches, when the index is beyond the list and when the batch has no highest bid.
\<close>

definition highestBidSoFar :: "vault \<Rightarrow> nat \<Rightarrow> highest_bid option" where
  "highestBidSoFar vault batchIndex =
     (case batches vault of
        None \<Rightarrow> None
      | Some bs \<Rightarrow> (case element bs batchIndex of None \<Rightarrow> None | Some b \<Rightarrow> highestBid b))"

text \<open>\<^verbatim>\<open>getStartingBid\<close> (part_000).\<close>

definition getStartingBid ::
  "env \<Rightarrow> vault \<Rightarrow> nat \<Rightarrow> string option \<Rightarrow> string option \<Rightarrow> error + BigNumber" where
  "getStartingBid env vault batchIndex amount' symbol =
     (case highestBidSoFar vault batchIndex of
        None \<Rightarrow>
          (case getPriceInDUSD env amount' symbol of
             Inl e \<Rightarrow> Inl e
           | Inr loanNum \<Rightarrow>
               on_object loanNum (\<lambda>n. multipliedBy n (BigNumber_of_string ''1.05'')))
      | Some bid \<Rightarrow>
          (let highestBidAmount = element (split CHR ''@'' (amount bid)) 0
           in case getPriceInDUSD env highestBidAmount symbol of
                Inl e \<Rightarrow> Inl e
              | Inr highestBidSoFarNum \<Rightarrow>
                  on_object highestBidSoFarNum
                    (\<lambda>n. multipliedBy n (BigNumber_of_string ''1.01''))))"

text \<open>
  \<^verbatim>\<open>getRewardPrice\<close>: the callback \<open>pricePromise\<close> starts the conversion of one
  collateral, \<^verbatim>\<open>Promise.all\<close> waits for all of them, and the prices are summed from zero;
  \<^verbatim>\<open>sum.plus(null)\<close> is NaN.
\<close>

definition pricePromise :: "env \<Rightarrow> string \<Rightarrow> error + BigNumber option" where
  "pricePromise env collateral =
     (let pieces = split CHR ''@'' collateral
      in getPriceInDUSD env (element pieces 0) (element pieces 1))"

definition getRewardPrice :: "env \<Rightarrow> string list \<Rightarrow> error + BigNumber" where
  "getRewardPrice env collaterals' =
     (let pricePromises = map (pricePromise env) collaterals'
      in case Promise_all pricePromises of
           Inl e \<Rightarrow> Inl e
         | Inr prices \<Rightarrow>
             Inr (foldl (\<lambda>sum price. plus_bn sum (of_nullable price)) (Finite 0) prices))"

section \<open>The request handler\<close>

text \<open>
  The request carries the route parameter \<^verbatim>\<open>limit\<close> and the optional query parameter
  \<^verbatim>\<open>minMarginPercentage\<close>. The response is either the JSON list or status 500 with a
  fixed body. A number the response renders as text is kept as the number together with
  the method that renders it.
\<close>

record request =
  limit :: string
  minMarginPercentage :: "string option"

datatype 'a response = Json 'a | Send nat string

datatype rendered = ToString BigNumber | ToPrecision nat BigNumber string

text \<open>
  \<^verbatim>\<open>parseInt(s, 10)\<close>: leading blanks, an optional sign and the longest run of digits;
  NaN (here \<open>None\<close>) when there is no digit.
\<close>

definition parseInt :: "string \<Rightarrow> int option" where
  "parseInt s =
     (let t = dropWhile (\<lambda>c. c = CHR '' '') s;
          negative = (case t of [] \<Rightarrow> False | c # r \<Rightarrow> c = CHR ''-'');
          u = (case t of [] \<Rightarrow> [] | c # r \<Rightarrow> if c = CHR ''-'' \<or> c = CHR ''+'' then r else t);
          ds = takeWhile is_digit u
      in if ds = [] then None
         else Some (if negative then - int (digits_value ds) else int (digits_value ds)))"

text \<open>The default of the query parameter is the number 0.\<close>

definition threshold :: "request \<Rightarrow> BigNumber" where
  "threshold req =
     (case minMarginPercentage req of None \<Rightarrow> Finite 0 | Some s \<Rightarrow> BigNumber_of_string s)"

text \<open>\<^verbatim>\<open>Array.prototype.map\<close> with a callback that may throw: the first throw ends it.\<close>

fun map_throwing :: "('a \<Rightarrow> error + 'b) \<Rightarrow> 'a list \<Rightarrow> error + 'b list" where
  "map_throwing f [] = Inr []"
| "map_throwing f (x # xs) =
     (case f x of
        Inl e \<Rightarrow> Inl e
      | Inr y \<Rightarrow> (case map_throwing f xs of Inl e \<Rightarrow> Inl e | Inr ys \<Rightarrow> Inr (y # ys)))"

subsection \<open>The handler of part_000\<close>

record ('n, 'm) valuation =
  url :: string
  minBidDusd :: 'n
  reward :: 'n
  diff :: 'n
  margin :: 'n
  maxBlockNumber :: "nat option"
  bidToken :: "string option"
  maxPrice :: 'm
  minBid :: "string option"

text \<open>
  The body of the \<^verbatim>\<open>for\<close> loop up to the test: the valuation of one batch. (The call
  of \<^verbatim>\<open>wait\<close> is not awaited and has no effect on the result.)
\<close>

definition loop_body :: "env \<Rightarrow> auction \<Rightarrow> error + (BigNumber, BigNumber option) valuation" where
  "loop_body env a =
     (case getVault env (auction.vaultId a) of
        Inl e \<Rightarrow> Inl e
      | Inr vault \<Rightarrow>
          (let pieces = split CHR ''@'' (loan a);
               minBid' = element pieces 0;
               symbol = element pieces 1
           in case getStartingBid env vault (index a) minBid' symbol of
                Inl e \<Rightarrow> Inl e
              | Inr startingBid \<Rightarrow>
                  (case getRewardPrice env (collaterals a) of
                     Inl e \<Rightarrow> Inl e
                   | Inr reward' \<Rightarrow>
                       (let url' = ''https://defiscan.live/vaults/'' @ auction.vaultId a
                                     @ ''/auctions/'' @ show_nat (index a);
                            diff' = minus_bn reward' startingBid;
                            margin' = multipliedBy (dividedBy (ROUNDING env) diff' startingBid)
                                        (Finite 100);
                            maxPrice' = getMaxPrice env reward' symbol
                        in Inr \<lparr>url = url', minBidDusd = startingBid, reward = reward',
                                 diff = diff', margin = margin',
                                 maxBlockNumber = liquidationHeight vault, bidToken = symbol,
                                 maxPrice = maxPrice', minBid = minBid'\<rparr>))))"

text \<open>The test of the \<^verbatim>\<open>if\<close> that guards \<^verbatim>\<open>result.push\<close>.\<close>

definition passes :: "BigNumber \<Rightarrow> (BigNumber, BigNumber option) valuation \<Rightarrow> bool" where
  "passes minMargin v =
     (isGreaterThanOrEqualTo (margin v) minMargin \<and> isGreaterThan (diff v) (Finite 1)
      \<and> isLessThan (minBidDusd v) (Finite 8000))"

fun for_loop ::
  "env \<Rightarrow> BigNumber \<Rightarrow> auction list \<Rightarrow> (BigNumber, BigNumber option) valuation list
     \<Rightarrow> error + (BigNumber, BigNumber option) valuation list" where
  "for_loop env minMargin [] result = Inr result"
| "for_loop env minMargin (a # availableAuctions) result =
     (case loop_body env a of
        Inl e \<Rightarrow> Inl e
      | Inr v \<Rightarrow>
          for_loop env minMargin availableAuctions
            (if passes minMargin v then result @ [v] else result))"

text \<open>The callback of \<^verbatim>\<open>result.map\<close>: \<^verbatim>\<open>maxPrice.toString()\<close> throws on \<^verbatim>\<open>null\<close>.\<close>

definition render :: "(BigNumber, BigNumber option) valuation \<Rightarrow> error + (rendered, rendered) valuation" where
  "render v =
     (case on_object (maxPrice v) ToString of
        Inl e \<Rightarrow> Inl e
      | Inr maxPrice' \<Rightarrow>
          Inr \<lparr>url = url v, minBidDusd = ToString (minBidDusd v), reward = ToString (reward v),
               diff = ToString (diff v), margin = ToString (margin v),
               maxBlockNumber = maxBlockNumber v, bidToken = bidToken v,
               maxPrice = maxPrice', minBid = minBid v\<rparr>)"

abbreviation internal_server_error :: "'a response" where
  "internal_server_error \<equiv> Send 500 ''Internal Server Error''"

definition get_auction_list :: "env \<Rightarrow> request \<Rightarrow> (rendered, rendered) valuation list response" where
  "get_auction_list env req =
     (case getAvailableAuctions env (parseInt (limit req)) of
        Inl e \<Rightarrow> internal_server_error
      | Inr availableAuctions \<Rightarrow>
          (case for_loop env (threshold req) availableAuctions [] of
             Inl e \<Rightarrow> internal_server_error
           | Inr result \<Rightarrow>
               (case map_throwing render result of
                  Inl e \<Rightarrow> internal_server_error
                | Inr auctions \<Rightarrow> Json auctions)))"

subsection \<open>The handler of the second revision\<close>

record 'n valuation_alt =
  url :: string
  minBid :: 'n
  reward :: 'n
  diff :: 'n
  margin :: 'n

text \<open>\<^verbatim>\<open>getHighestBidSoFar\<close>: an error of the vault fetch is caught and gives \<^verbatim>\<open>null\<close>.\<close>

definition getHighestBidSoFar :: "env \<Rightarrow> string \<Rightarrow> nat \<Rightarrow> highest_bid option" where
  "getHighestBidSoFar env vaultId' batchIndex =
     (case getVault env vaultId' of
        Inl e \<Rightarrow> None
      | Inr vault \<Rightarrow> highestBidSoFar vault batchIndex)"

definition getStartingBid_alt :: "env \<Rightarrow> auction \<Rightarrow> error + BigNumber" where
  "getStartingBid_alt env a =
     (let highestBidSoFar' = getHighestBidSoFar env (auction.vaultId a) (index a);
          pieces = split CHR ''@'' (loan a);
          amount' = element pieces 0;
          symbol = element pieces 1
      in case highestBidSoFar' of
           None \<Rightarrow>
             (case getPriceInDUSD env amount' symbol of
                Inl e \<Rightarrow> Inl e
              | Inr loanNum \<Rightarrow>
                  on_object loanNum (\<lambda>n. multipliedBy n (BigNumber_of_string ''1.05'')))
         | Some bid \<Rightarrow>
             (let highestBidAmount = element (split CHR ''@'' (amount bid)) 0
              in case getPriceInDUSD env highestBidAmount symbol of
                   Inl e \<Rightarrow> Inl e
                 | Inr highestBidSoFarNum \<Rightarrow>
                     on_object highestBidSoFarNum
                       (\<lambda>n. multipliedBy n (BigNumber_of_string ''1.01''))))"

definition sortyByMargin :: "BigNumber valuation_alt \<Rightarrow> BigNumber valuation_alt \<Rightarrow> int" where
  "sortyByMargin a b =
     (let first = valuation_alt.margin a; second = valuation_alt.margin b
      in if isGreaterThan first second then - 1
         else if isGreaterThan second first then 1
         else 0)"

text \<open>
  \<^verbatim>\<open>Array.prototype.sort\<close> with a comparator is a stable sort: an element goes before
  another when the comparator is negative and keeps its place among those it compares
  equal to. Written as an insertion sort.
\<close>

fun insert_sorted :: "('a \<Rightarrow> 'a \<Rightarrow> int) \<Rightarrow> 'a \<Rightarrow> 'a list \<Rightarrow> 'a list" where
  "insert_sorted cmp x [] = [x]"
| "insert_sorted cmp x (y # ys) =
     (if cmp x y \<le> 0 then x # y # ys else y # insert_sorted cmp x ys)"

definition sort_array :: "('a \<Rightarrow> 'a \<Rightarrow> int) \<Rightarrow> 'a list \<Rightarrow> 'a list" where
  "sort_array cmp xs = foldr (insert_sorted cmp) xs []"

definition loop_body_alt :: "env \<Rightarrow> auction \<Rightarrow> error + BigNumber valuation_alt" where
  "loop_body_alt env a =
     (case getStartingBid_alt env a of
        Inl e \<Rightarrow> Inl e
      | Inr startingBid \<Rightarrow>
          (case getRewardPrice env (collaterals a) of
             Inl e \<Rightarrow> Inl e
           | Inr reward' \<Rightarrow>
               (let url' = ''https://defiscan.live/vaults/'' @ auction.vaultId a
                             @ ''/auctions/'' @ show_nat (index a);
                    diff' = minus_bn reward' startingBid;
                    margin' = multipliedBy (dividedBy (ROUNDING env) diff' startingBid)
                                (Finite 100)
                in Inr \<lparr>url = url', minBid = startingBid, reward = reward', diff = diff',
                         margin = margin'\<rparr>)))"

definition passes_alt :: "BigNumber \<Rightarrow> BigNumber valuation_alt \<Rightarrow> bool" where
  "passes_alt minMargin v = isGreaterThanOrEqualTo (valuation_alt.margin v) minMargin"

fun for_loop_alt ::
  "env \<Rightarrow> BigNumber \<Rightarrow> auction list \<Rightarrow> BigNumber valuation_alt list
     \<Rightarrow> error + BigNumber valuation_alt list" where
  "for_loop_alt env minMargin [] result = Inr result"
| "for_loop_alt env minMargin (a # availableAuctions) result =
     (case loop_body_alt env a of
        Inl e \<Rightarrow> Inl e
      | Inr v \<Rightarrow>
          for_loop_alt env minMargin availableAuctions
            (if passes_alt minMargin v then result @ [v] else result))"

definition render_alt :: "BigNumber valuation_alt \<Rightarrow> rendered valuation_alt" where
  "render_alt v =
     \<lparr>url = valuation_alt.url v,
      minBid = ToPrecision 10 (valuation_alt.minBid v) '' DUSD'',
      reward = ToPrecision 10 (valuation_alt.reward v) '' DUSD'',
      diff = ToPrecision 7 (valuation_alt.diff v) '' DUSD'',
      margin = ToPrecision 5 (valuation_alt.margin v) ''%''\<rparr>"

definition get_auction_list_alt :: "env \<Rightarrow> request \<Rightarrow> rendered valuation_alt list response" where
  "get_auction_list_alt env req =
     (case getAvailableAuctions env (parseInt (limit req)) of
        Inl e \<Rightarrow> internal_server_error
      | Inr availableAuctions \<Rightarrow>
          (case for_loop_alt env (threshold req) availableAuctions [] of
             Inl e \<Rightarrow> internal_server_error
           | Inr result \<Rightarrow>
               Json (map render_alt (rev (sort_array sortyByMargin result)))))"

section \<open>Example data\<close>

text \<open>
  A data source for the examples: the pool \<^verbatim>\<open>DUSD-DFI\<close> prices one DFI at \<open>dfi\<close> DUSD,
  the pool \<^verbatim>\<open>BTC-DFI\<close> gives 3 DFI for one BTC, the lookup of \<^verbatim>\<open>ETH-DUSD\<close> fails with
  a connection error, and every other pool is not found. The vaults are those listed.
\<close>

definition one_pool :: "rat \<Rightarrow> rat \<Rightarrow> pool_pair list" where
  "one_pool a_per_b b_per_a =
     [\<lparr>reserveA_reserveB = Finite a_per_b, reserveB_reserveA = Finite b_per_a\<rparr>]"

definition example_pools :: "rat \<Rightarrow> string \<Rightarrow> error + pool_pair list" where
  "example_pools dfi k =
     (if k = ''DUSD-DFI'' then Inr (one_pool dfi (1 / dfi))
      else if k = ''DFI-DUSD'' then Inr (one_pool (1 / dfi) dfi)
      else if k = ''BTC-DFI'' then Inr (one_pool (1 / 3) 3)
      else if k = ''ETH-DUSD'' then Inl (Error ''connect ECONNREFUSED'')
      else Inl (Error ''Pool not found''))"

definition example_env :: "rat \<Rightarrow> vault list \<Rightarrow> env" where
  "example_env dfi vaults =
     \<lparr>listAuctions = (\<lambda>l. Inr vaults),
      getVault = (\<lambda>k. case find (\<lambda>v. vault.vaultId v = k) vaults of
                         None \<Rightarrow> Inl (Error ''Vault not found'')
                       | Some v \<Rightarrow> Inr v),
      getPoolPair = example_pools dfi,
      ROUNDING = round_half_up 20\<rparr>"

definition example_batch :: "nat \<Rightarrow> string \<Rightarrow> string list \<Rightarrow> string option \<Rightarrow> batch" where
  "example_batch i l cs bid =
     \<lparr>index = i, loan = l, collaterals = cs,
      highestBid = map_option (\<lambda>a. \<lparr>owner = ''bidder'', amount = a\<rparr>) bid\<rparr>"

definition example_vault :: "batch list \<Rightarrow> vault" where
  "example_vault bs =
     \<lparr>vault.vaultId = ''v1'', liquidationHeight = Some 77, batches = Some bs\<rparr>"

definition example_auction :: "nat \<Rightarrow> string \<Rightarrow> string list \<Rightarrow> string option \<Rightarrow> auction" where
  "example_auction i l cs bid = batch.extend (example_batch i l cs bid) \<lparr>auction.vaultId = ''v1''\<rparr>"

definition example_request :: "string option \<Rightarrow> request" where
  "example_request m = \<lparr>limit = ''10'', minMarginPercentage = m\<rparr>"

text \<open>The same data source when the node does not answer the vault or the list call.\<close>

definition vaults_unreachable :: "env \<Rightarrow> env" where
  "vaults_unreachable env = env\<lparr>getVault := \<lambda>k. Inl (Error ''connect ECONNREFUSED'')\<rparr>"

definition list_unreachable :: "env \<Rightarrow> env" where
  "list_unreachable env = env\<lparr>listAuctions := \<lambda>l. Inl (Error ''connect ECONNREFUSED'')\<rparr>"

text \<open>
  Vaults for the examples, all with DFI loans and DFI collaterals at 1 DUSD per DFI:
  three batches with the margins 5, 20 and 12 percent; one batch with the margin 20
  percent; one batch with a starting bid of 0.525 and a reward of 1.05; one batch with a
  loan of zero; a vault whose first loan is in ETH, and one whose first collateral is.
\<close>

definition margins_vault :: vault where
  "margins_vault =
     example_vault [example_batch 0 ''100@DFI'' [''110.25@DFI''] None,
                    example_batch 1 ''100@DFI'' [''126@DFI''] None,
                    example_batch 2 ''100@DFI'' [''117.6@DFI''] None]"

definition single_vault :: vault where
  "single_vault = example_vault [example_batch 0 ''100@DFI'' [''126@DFI''] None]"

definition small_vault :: vault where
  "small_vault = example_vault [example_batch 0 ''0.5@DFI'' [''1.05@DFI''] None]"

definition zero_vault :: vault where
  "zero_vault = example_vault [example_batch 0 ''0@DFI'' [''10@DFI''] None]"

definition failing_loan_vault :: vault where
  "failing_loan_vault =
     example_vault [example_batch 0 ''1@ETH'' [''10@DFI''] None,
                    example_batch 1 ''100@DFI'' [''126@DFI''] None]"

definition failing_collateral_vault :: vault where
  "failing_collateral_vault =
     example_vault [example_batch 0 ''100@DFI'' [''1@ETH''] None,
                    example_batch 1 ''100@DFI'' [''126@DFI''] None]"

text \<open>
  A record of the result for a batch of vault \<^verbatim>\<open>v1\<close> with a DFI loan, in the form of
  part_000 and in the form of the second revision.
\<close>

definition example_row ::
  "nat \<Rightarrow> 'n \<Rightarrow> 'n \<Rightarrow> 'n \<Rightarrow> 'n \<Rightarrow> 'm \<Rightarrow> string \<Rightarrow> ('n, 'm) valuation" where
  "example_row i bid r d m mp mb =
     \<lparr>valuation.url = ''https://defiscan.live/vaults/v1/auctions/'' @ show_nat i,
      minBidDusd = bid, reward = r, diff = d, margin = m, maxBlockNumber = Some 77,
      bidToken = Some ''DFI'', maxPrice = mp, minBid = Some mb\<rparr>"

definition example_row_alt :: "nat \<Rightarrow> 'n \<Rightarrow> 'n \<Rightarrow> 'n \<Rightarrow> 'n \<Rightarrow> 'n valuation_alt" where
  "example_row_alt i bid r d m =
     \<lparr>valuation_alt.url = ''https://defiscan.live/vaults/v1/auctions/'' @ show_nat i,
      minBid = bid, reward = r, diff = d, margin = m\<rparr>"

text \<open>The number a field of the response renders.\<close>

fun number_of :: "rendered \<Rightarrow> BigNumber" where
  "number_of (ToString x) = x"
| "number_of (ToPrecision d x u) = x"

text \<open>The order the comparator \<open>sortyByMargin\<close> sorts into.\<close>

definition descending :: "BigNumber valuation_alt \<Rightarrow> BigNumber valuation_alt \<Rightarrow> bool" where
  "descending a b = isGreaterThanOrEqualTo (valuation_alt.margin a) (valuation_alt.margin b)"

section \<open>Auxiliary facts\<close>

lemmas parse_defs = BigNumber_of_string_def parse_unsigned_def parse_mantissa_def
  parse_exponent_def is_digit_def digits_value_def digit_value_def

lemmas example_defs = one_pool_def example_pools_def example_env_def example_batch_def
  example_vault_def

lemma factor_105: "BigNumber_of_string ''1.05'' = Finite (21 / 20)"
  by (simp add: parse_defs)

lemma factor_101: "BigNumber_of_string ''1.01'' = Finite (101 / 100)"
  by (simp add: parse_defs)

lemma factor_099: "BigNumber_of_string ''0.99'' = Finite (99 / 100)"
  by (simp add: parse_defs)

lemma of_nullable_simps [simp]: "of_nullable None = NaN" "of_nullable (Some x) = x"
  by (simp_all add: of_nullable_def)

lemma plus_bn_NaN_right: "plus_bn x NaN = NaN"
  by (cases x) simp_all

lemma element_beyond: "length xs \<le> n \<Longrightarrow> element xs n = None"
  by (induction xs n rule: element.induct) simp_all

lemma element_nth: "n < length xs \<Longrightarrow> element xs n = Some (xs ! n)"
  by (induction xs n rule: element.induct) simp_all

subsection \<open>The sum of the prices\<close>

lemma foldl_plus_NaN:
  "foldl (\<lambda>sum price. plus_bn sum (of_nullable price)) NaN prices = NaN"
  by (induction prices) simp_all

lemma foldl_plus_null:
  "None \<in> set prices \<Longrightarrow>
   foldl (\<lambda>sum price. plus_bn sum (of_nullable price)) acc prices = NaN"
proof (induction prices arbitrary: acc)
  case Nil
  then show ?case by simp
next
  case (Cons p ps)
  show ?case
  proof (cases p)
    case None
    then show ?thesis by (simp add: plus_bn_NaN_right foldl_plus_NaN)
  next
    case (Some x)
    with Cons.prems have "None \<in> set ps" by auto
    then show ?thesis using Cons.IH by simp
  qed
qed



lemma Promise_all_resolved: "Promise_all ps = Inr vs \<Longrightarrow> ps = map Inr vs"
  by (induction ps arbitrary: vs) (auto split: sum.splits)


lemma Promise_all_rejected:
  "p \<in> set ps \<Longrightarrow> p = Inl e \<Longrightarrow> \<exists>e'. Promise_all ps = Inl e'"
  by (induction ps) (auto split: sum.splits)

lemma Promise_all_all_resolved:
  "\<forall>p\<in>set ps. \<exists>v. p = Inr v \<Longrightarrow> \<exists>vs. Promise_all ps = Inr vs"
  by (induction ps) (auto split: sum.splits)

subsection \<open>The loops\<close>

lemma map_throwing_rejected:
  "x \<in> set xs \<Longrightarrow> f x = Inl e \<Longrightarrow> \<exists>e'. map_throwing f xs = Inl e'"
  by (induction xs) (auto split: sum.splits)

lemma map_throwing_set:
  "map_throwing f xs = Inr ys \<Longrightarrow> y \<in> set ys \<longleftrightarrow> (\<exists>x\<in>set xs. f x = Inr y)"
  by (induction xs arbitrary: ys) (auto split: sum.splits)

lemma map_throwing_all:
  "\<forall>x\<in>set xs. \<exists>y. f x = Inr y \<Longrightarrow> \<exists>ys. map_throwing f xs = Inr ys"
  by (induction xs) (auto split: sum.splits)

lemma for_loop_eq:
  "for_loop env m as result =
     (case map_throwing (loop_body env) as of
        Inl e \<Rightarrow> Inl e
      | Inr vs \<Rightarrow> Inr (result @ filter (passes m) vs))"
  by (induction as arbitrary: result) (auto split: sum.splits)

lemma for_loop_alt_eq:
  "for_loop_alt env m as result =
     (case map_throwing (loop_body_alt env) as of
        Inl e \<Rightarrow> Inl e
      | Inr vs \<Rightarrow> Inr (result @ filter (passes_alt m) vs))"
  by (induction as arbitrary: result) (auto split: sum.splits)

lemma get_auction_list_Json:
  assumes "get_auction_list env req = Json out"
  shows "\<exists>as vs. getAvailableAuctions env (parseInt (limit req)) = Inr as
           \<and> map_throwing (loop_body env) as = Inr vs
           \<and> map_throwing render (filter (passes (threshold req)) vs) = Inr out"
  using assms
  by (auto simp: get_auction_list_def for_loop_eq split: sum.splits)

lemma get_auction_list_alt_Json:
  assumes "get_auction_list_alt env req = Json out"
  shows "\<exists>as vs. getAvailableAuctions env (parseInt (limit req)) = Inr as
           \<and> map_throwing (loop_body_alt env) as = Inr vs
           \<and> out = map render_alt
                      (rev (sort_array sortyByMargin (filter (passes_alt (threshold req)) vs)))"
  using assms
  by (auto simp: get_auction_list_alt_def for_loop_alt_eq split: sum.splits)

subsection \<open>Comparisons\<close>

lemma gte_not_NaN: "isGreaterThanOrEqualTo x y \<Longrightarrow> x \<noteq> NaN"
  by (auto simp: isGreaterThanOrEqualTo_def)

lemma gte_total:
  "x \<noteq> NaN \<Longrightarrow> y \<noteq> NaN \<Longrightarrow> \<not> isGreaterThan y x \<Longrightarrow> isGreaterThanOrEqualTo x y"
  by (cases x; cases y) (auto simp: isGreaterThan_def isGreaterThanOrEqualTo_def)

lemma gt_gte: "isGreaterThan x y \<Longrightarrow> isGreaterThanOrEqualTo x y"
  by (cases x; cases y)
    (auto simp: isGreaterThan_def isGreaterThanOrEqualTo_def split: if_splits)

lemma gte_trans:
  "isGreaterThanOrEqualTo x y \<Longrightarrow> isGreaterThanOrEqualTo y z \<Longrightarrow> isGreaterThanOrEqualTo x z"
  by (cases x; cases y; cases z) (auto simp: isGreaterThanOrEqualTo_def split: if_splits)

subsection \<open>Sorting\<close>

lemma set_insert_sorted: "set (insert_sorted cmp x ys) = insert x (set ys)"
  by (induction ys) auto

lemma set_sort_array: "set (sort_array cmp xs) = set xs"
  unfolding sort_array_def by (induction xs) (simp_all add: set_insert_sorted)

lemma sortyByMargin_le:
  assumes "valuation_alt.margin a \<noteq> NaN" "valuation_alt.margin b \<noteq> NaN"
  shows "sortyByMargin a b \<le> 0 \<Longrightarrow> descending a b"
    and "\<not> sortyByMargin a b \<le> 0 \<Longrightarrow> descending b a"
  using assms
  by (auto simp: sortyByMargin_def descending_def Let_def gte_total gt_gte split: if_splits)

lemma sorted_insert_sorted:
  assumes "valuation_alt.margin x \<noteq> NaN" "\<forall>y\<in>set ys. valuation_alt.margin y \<noteq> NaN"
    and "sorted_wrt descending ys"
  shows "sorted_wrt descending (insert_sorted sortyByMargin x ys)"
  using assms
proof (induction ys)
  case Nil
  then show ?case by simp
next
  case (Cons y ys)
  show ?case
  proof (cases "sortyByMargin x y \<le> 0")
    case True
    with Cons.prems have xy: "descending x y" by (simp add: sortyByMargin_le)
    have "descending x z" if "z \<in> set ys" for z
      using xy Cons.prems(3) that unfolding descending_def by (auto intro: gte_trans)
    with True xy Cons.prems(3) show ?thesis by auto
  next
    case False
    with Cons.prems have yx: "descending y x" by (simp add: sortyByMargin_le)
    from Cons have "sorted_wrt descending (insert_sorted sortyByMargin x ys)" by simp
    with False yx Cons.prems(3) show ?thesis by (auto simp: set_insert_sorted)
  qed
qed

lemma sorted_sort_array:
  "\<forall>x\<in>set xs. valuation_alt.margin x \<noteq> NaN \<Longrightarrow>
   sorted_wrt descending (sort_array sortyByMargin xs)"
proof (induction xs)
  case Nil
  then show ?case by (simp add: sort_array_def)
next
  case (Cons x xs)
  then have "sorted_wrt descending (sort_array sortyByMargin xs)" by simp
  moreover have "\<forall>y\<in>set (sort_array sortyByMargin xs). valuation_alt.margin y \<noteq> NaN"
    using Cons.prems by (simp add: set_sort_array)
  ultimately have
    "sorted_wrt descending (insert_sorted sortyByMargin x (sort_array sortyByMargin xs))"
    using Cons.prems by (intro sorted_insert_sorted) simp_all
  then show ?case by (simp add: sort_array_def)
qed

subsection \<open>The handlers\<close>

lemma render_inj: "render v = Inr r \<Longrightarrow> render v' = Inr r \<Longrightarrow> v = v'"
  by (cases v; cases v') (auto simp: render_def on_object_def split: option.splits)

lemma render_alt_inj: "render_alt v = render_alt v' \<Longrightarrow> v = v'"
  by (cases v; cases v') (auto simp: render_alt_def)

lemma loop_body_getVault:
  "getVault env (auction.vaultId a) = Inl e \<Longrightarrow> loop_body env a = Inl e"
  by (simp add: loop_body_def)

lemma getAvailableAuctions_rejected:
  "listAuctions env l = Inl e \<Longrightarrow> getAvailableAuctions env l = Inl e"
  by (simp add: getAvailableAuctions_def)

lemma margin_cases:
  "multipliedBy (dividedBy rnd (minus_bn (Finite r) (Finite s)) (Finite s)) (Finite 100) =
     (if s = 0 then (if r = 0 then NaN else infinity (r < 0))
      else Finite (rnd ((r - s) / s) * 100))"
  by (simp add: minus_bn_def infinity_def)

lemma margin_NaN:
  "multipliedBy (dividedBy rnd (minus_bn NaN s) s) (Finite 100) = NaN"
  by (simp add: minus_bn_def)

lemma passes_included:
  assumes "get_auction_list env req = Json out"
    and "getAvailableAuctions env (parseInt (limit req)) = Inr as" and "a \<in> set as"
    and "loop_body env a = Inr v" and "passes (threshold req) v"
  shows "\<exists>r\<in>set out. render v = Inr r"
proof -
  from get_auction_list_Json [OF assms(1)] assms(2) obtain vs where
    vs: "map_throwing (loop_body env) as = Inr vs"
    and out: "map_throwing render (filter (passes (threshold req)) vs) = Inr out"
    by auto
  from assms(3,4) have "v \<in> set vs" using map_throwing_set [OF vs, of v] by auto
  with assms(5) have k: "v \<in> set (filter (passes (threshold req)) vs)" by simp
  from k out obtain r where "render v = Inr r"
    using map_throwing_rejected [of v _ render] by (cases "render v") fastforce+
  with k show ?thesis using map_throwing_set [OF out] by blast
qed

lemma passes_alt_included:
  assumes "get_auction_list_alt env req = Json out"
    and "getAvailableAuctions env (parseInt (limit req)) = Inr as" and "a \<in> set as"
    and "loop_body_alt env a = Inr v" and "passes_alt (threshold req) v"
  shows "render_alt v \<in> set out"
proof -
  from get_auction_list_alt_Json [OF assms(1)] assms(2) obtain vs where
    vs: "map_throwing (loop_body_alt env) as = Inr vs"
    and out: "out = map render_alt
            (rev (sort_array sortyByMargin (filter (passes_alt (threshold req)) vs)))"
    by auto
  from assms(3,4) have "v \<in> set vs" using map_throwing_set [OF vs, of v] by auto
  with assms(5) show ?thesis unfolding out by (simp add: set_sort_array)
qed

lemma getStartingBid_alt_unreachable:
  assumes "getVault env (auction.vaultId a) = Inl e"
    and "getPriceInDUSD env (element (split CHR ''@'' (loan a)) 0)
           (element (split CHR ''@'' (loan a)) 1) = Inr (Some p)"
  shows "getStartingBid_alt env a = Inr (multipliedBy p (Finite (105 / 100)))"
  using assms
  by (simp add: getStartingBid_alt_def getHighestBidSoFar_def on_object_def factor_105)

subsection \<open>The examples, evaluated\<close>

lemma margins_example:
  "get_auction_list (example_env 1 [margins_vault]) (example_request None) =
     Json [example_row 0 (ToString (Finite 105)) (ToString (Finite (441 / 4)))
             (ToString (Finite (21 / 4))) (ToString (Finite 5))
             (ToString (Finite (43659 / 400))) ''100'',
           example_row 1 (ToString (Finite 105)) (ToString (Finite 126))
             (ToString (Finite 21)) (ToString (Finite 20))
             (ToString (Finite (6237 / 50))) ''100'',
           example_row 2 (ToString (Finite 105)) (ToString (Finite (588 / 5)))
             (ToString (Finite (63 / 5))) (ToString (Finite 12))
             (ToString (Finite (14553 / 125))) ''100'']"
  by code_simp

lemma margins_example_alt:
  "get_auction_list_alt (example_env 1 [margins_vault]) (example_request None) =
     Json [example_row_alt 0 (ToPrecision 10 (Finite 105) '' DUSD'')
             (ToPrecision 10 (Finite (441 / 4)) '' DUSD'')
             (ToPrecision 7 (Finite (21 / 4)) '' DUSD'') (ToPrecision 5 (Finite 5) ''%''),
           example_row_alt 2 (ToPrecision 10 (Finite 105) '' DUSD'')
             (ToPrecision 10 (Finite (588 / 5)) '' DUSD'')
             (ToPrecision 7 (Finite (63 / 5)) '' DUSD'') (ToPrecision 5 (Finite 12) ''%''),
           example_row_alt 1 (ToPrecision 10 (Finite 105) '' DUSD'')
             (ToPrecision 10 (Finite 126) '' DUSD'')
             (ToPrecision 7 (Finite 21) '' DUSD'') (ToPrecision 5 (Finite 20) ''%'')]"
  by code_simp

lemma single_auctions:
  "getAvailableAuctions (example_env 1 [single_vault]) (parseInt (limit (example_request m)))
     = Inr [example_auction 0 ''100@DFI'' [''126@DFI''] None]"
  by (simp add: getAvailableAuctions_def example_defs example_auction_def single_vault_def
      on_object_def)

lemma single_body:
  "loop_body (example_env 1 [single_vault]) (example_auction 0 ''100@DFI'' [''126@DFI''] None)
     = Inr (example_row 0 (Finite 105) (Finite 126) (Finite 21) (Finite 20)
              (Some (Finite (6237 / 50))) ''100'')"
  by code_simp

lemma single_body_alt:
  "loop_body_alt (example_env 1 [single_vault]) (example_auction 0 ''100@DFI'' [''126@DFI''] None)
     = Inr (example_row_alt 0 (Finite 105) (Finite 126) (Finite 21) (Finite 20))"
  by code_simp

lemma single_20:
  "get_auction_list (example_env 1 [single_vault]) (example_request (Some ''20'')) =
     Json [example_row 0 (ToString (Finite 105)) (ToString (Finite 126))
             (ToString (Finite 21)) (ToString (Finite 20))
             (ToString (Finite (6237 / 50))) ''100'']"
  by code_simp

lemma single_25:
  "get_auction_list (example_env 1 [single_vault]) (example_request (Some ''25'')) = Json []"
  by code_simp

lemma single_20_alt:
  "get_auction_list_alt (example_env 1 [single_vault]) (example_request (Some ''20'')) =
     Json [example_row_alt 0 (ToPrecision 10 (Finite 105) '' DUSD'')
             (ToPrecision 10 (Finite 126) '' DUSD'')
             (ToPrecision 7 (Finite 21) '' DUSD'') (ToPrecision 5 (Finite 20) ''%'')]"
  by code_simp

lemma single_25_alt:
  "get_auction_list_alt (example_env 1 [single_vault]) (example_request (Some ''25'')) = Json []"
  by code_simp

lemma small_body:
  "loop_body (example_env 1 [small_vault]) (example_auction 0 ''0.5@DFI'' [''1.05@DFI''] None)
     = Inr (example_row 0 (Finite (21 / 40)) (Finite (21 / 20)) (Finite (21 / 40)) (Finite 100)
              (Some (Finite (2079 / 2000))) ''0.5'')"
  by code_simp

lemma small_example:
  "get_auction_list (example_env 1 [small_vault]) (example_request None) = Json []"
  by code_simp

lemma zero_body:
  "loop_body (example_env 1 [zero_vault]) (example_auction 0 ''0@DFI'' [''10@DFI''] None)
     = Inr (example_row 0 (Finite 0) (Finite 10) (Finite 10) PosInfinity
              (Some (Finite (99 / 10))) ''0'')"
  by code_simp

lemma zero_body_alt:
  "loop_body_alt (example_env 1 [zero_vault]) (example_auction 0 ''0@DFI'' [''10@DFI''] None)
     = Inr (example_row_alt 0 (Finite 0) (Finite 10) (Finite 10) PosInfinity)"
  by code_simp

lemma zero_example:
  "get_auction_list (example_env 1 [zero_vault]) (example_request None) =
     Json [example_row 0 (ToString (Finite 0)) (ToString (Finite 10)) (ToString (Finite 10))
             (ToString PosInfinity) (ToString (Finite (99 / 10))) ''0'']"
  by code_simp

lemma zero_example_alt:
  "get_auction_list_alt (example_env 1 [zero_vault]) (example_request None) =
     Json [example_row_alt 0 (ToPrecision 10 (Finite 0) '' DUSD'')
             (ToPrecision 10 (Finite 10) '' DUSD'')
             (ToPrecision 7 (Finite 10) '' DUSD'') (ToPrecision 5 PosInfinity ''%'')]"
  by code_simp

lemma failing_loan_example:
  "get_auction_list (example_env 1 [failing_loan_vault]) (example_request None)
     = internal_server_error"
  by code_simp

lemma failing_loan_example_alt:
  "get_auction_list_alt (example_env 1 [failing_loan_vault]) (example_request None)
     = internal_server_error"
  by code_simp

lemma failing_collateral_example:
  "get_auction_list (example_env 1 [failing_collateral_vault]) (example_request None) =
     Json [example_row 1 (ToString (Finite 105)) (ToString (Finite 126))
             (ToString (Finite 21)) (ToString (Finite 20))
             (ToString (Finite (6237 / 50))) ''100'']"
  by code_simp

lemma unreachable_example_alt:
  "get_auction_list_alt (vaults_unreachable (example_env 1 [single_vault])) (example_request None) =
     Json [example_row_alt 0 (ToPrecision 10 (Finite 105) '' DUSD'')
             (ToPrecision 10 (Finite 126) '' DUSD'')
             (ToPrecision 7 (Finite 21) '' DUSD'') (ToPrecision 5 (Finite 20) ''%'')]"
  by code_simp

lemma failing_collateral_body:
  "loop_body (example_env 1 [failing_collateral_vault])
     (example_auction 0 ''100@DFI'' [''1@ETH''] None)
     = Inr (example_row 0 (Finite 105) NaN NaN NaN (Some NaN) ''100'')"
  by code_simp

lemma zero_auctions:
  "getAvailableAuctions (example_env 1 [zero_vault]) (parseInt (limit (example_request m)))
     = Inr [example_auction 0 ''0@DFI'' [''10@DFI''] None]"
  by (simp add: getAvailableAuctions_def example_defs example_auction_def zero_vault_def
      on_object_def)

lemma unreachable_auctions:
  "getAvailableAuctions (vaults_unreachable (example_env 1 [single_vault]))
     (parseInt (limit (example_request m)))
     = Inr [example_auction 0 ''100@DFI'' [''126@DFI''] None]"
  by (simp add: getAvailableAuctions_def vaults_unreachable_def example_defs
      example_auction_def single_vault_def on_object_def)

lemma unreachable_price:
  "getPriceInDUSD (vaults_unreachable (example_env 1 [single_vault]))
     (element (split CHR ''@'' (loan (example_auction 0 ''100@DFI'' [''126@DFI''] None))) 0)
     (element (split CHR ''@'' (loan (example_auction 0 ''100@DFI'' [''126@DFI''] None))) 1)
     = Inr (Some (Finite 100))"
  by code_simp

lemma unreachable_reward:
  "getRewardPrice (vaults_unreachable (example_env 1 [single_vault]))
     (collaterals (example_auction 0 ''100@DFI'' [''126@DFI''] None)) = Inr (Finite 126)"
  by code_simp

section \<open>The bid estimator\<close>

text \<open>
  Claim C5. For a batch of the vault at the given index: when the batch has no highest
  bid and the loan amount converts to the price \<open>p\<close>, the starting bid is \<open>p\<close> times
  1.05; when the batch has a highest bid and the amount component of the bid string,
  priced with the loan's symbol, converts to \<open>p\<close>, the starting bid is \<open>p\<close> times 1.01.
\<close>

theorem getStartingBid_premium:
  assumes "batches vault = Some bs" and "element bs i = Some b"
  shows "(highestBid b = None \<longrightarrow> getPriceInDUSD env amt symbol = Inr (Some p) \<longrightarrow>
            getStartingBid env vault i amt symbol = Inr (multipliedBy p (Finite (105 / 100))))
       \<and> (highestBid b = Some bid \<longrightarrow>
            getPriceInDUSD env (element (split CHR ''@'' (amount bid)) 0) symbol = Inr (Some p) \<longrightarrow>
            getStartingBid env vault i amt symbol = Inr (multipliedBy p (Finite (101 / 100))))"
  using assms
  by (simp add: getStartingBid_def highestBidSoFar_def on_object_def factor_105 factor_101)

text \<open>
  The examples of the claim: with DFI at 1 DUSD and the loan \<^verbatim>\<open>100@DFI\<close>, the batch with
  no bid starts at 105 and the batch with the highest bid \<^verbatim>\<open>110@DFI\<close> at 111.1.
\<close>

theorem getStartingBid_premium_witness:
  "getStartingBid (example_env 1 [])
     (example_vault [example_batch 0 ''100@DFI'' [] None,
                     example_batch 1 ''100@DFI'' [] (Some ''110@DFI'')])
     0 (Some ''100'') (Some ''DFI'') = Inr (Finite 105)
   \<and> getStartingBid (example_env 1 [])
     (example_vault [example_batch 0 ''100@DFI'' [] None,
                     example_batch 1 ''100@DFI'' [] (Some ''110@DFI'')])
     1 (Some ''100'') (Some ''DFI'') = Inr (Finite (1111 / 10))"
proof -
  let ?env = "example_env 1 []"
  let ?b0 = "example_batch 0 ''100@DFI'' [] None"
  let ?b1 = "example_batch 1 ''100@DFI'' [] (Some ''110@DFI'')"
  let ?bid = "\<lparr>owner = ''bidder'', amount = ''110@DFI''\<rparr>"
  have b: "batches (example_vault [?b0, ?b1]) = Some [?b0, ?b1]"
    by (simp add: example_vault_def)
  have e0: "element [?b0, ?b1] 0 = Some ?b0" by simp
  have e1: "element [?b0, ?b1] 1 = Some ?b1" by simp
  have h0: "highestBid ?b0 = None" by (simp add: example_batch_def)
  have h1: "highestBid ?b1 = Some ?bid" by (simp add: example_batch_def)
  have p0: "getPriceInDUSD ?env (Some ''100'') (Some ''DFI'') = Inr (Some (Finite 100))"
    by (simp add: getPriceInDUSD_def example_defs on_object_def of_amount_def parse_defs)
  have p1: "getPriceInDUSD ?env (element (split CHR ''@'' (amount ?bid)) 0) (Some ''DFI'')
              = Inr (Some (Finite 110))"
    by (simp add: getPriceInDUSD_def example_defs on_object_def of_amount_def parse_defs)
  from getStartingBid_premium [OF b e0, where env = ?env and amt = "Some ''100''"
      and symbol = "Some ''DFI''" and p = "Finite 100"] h0 p0
  have r0: "getStartingBid ?env (example_vault [?b0, ?b1]) 0 (Some ''100'') (Some ''DFI'')
              = Inr (Finite 105)"
    by simp
  from getStartingBid_premium [OF b e1, where env = ?env and amt = "Some ''100''"
      and symbol = "Some ''DFI''" and p = "Finite 110" and bid = ?bid] h1 p1
  have r1: "getStartingBid ?env (example_vault [?b0, ?b1]) 1 (Some ''100'') (Some ''DFI'')
              = Inr (Finite (1111 / 10))"
    by simp
  from r0 r1 show ?thesis by simp
qed

text \<open>
  Claim C10. When the vault has no batch at the index (no batch list, or an index beyond
  the list) or the batch there has no highest bid, the lookup of the highest bid does not
  throw and the estimator takes the path of a batch without bids: it returns what it
  returns for any vault whose batch at the index has no highest bid, and when the loan
  amount converts to the price \<open>p\<close> that is \<open>p\<close> times 1.05.
\<close>

theorem getStartingBid_out_of_range:
  assumes "batches vault = None
         \<or> (\<exists>bs. batches vault = Some bs \<and> (length bs \<le> i \<or> highestBid (bs ! i) = None))"
  shows "(getPriceInDUSD env amt symbol = Inr (Some p) \<longrightarrow>
            getStartingBid env vault i amt symbol = Inr (multipliedBy p (Finite (105 / 100))))
       \<and> (\<forall>vault' i' bs' b'.
            batches vault' = Some bs' \<and> element bs' i' = Some b' \<and> highestBid b' = None \<longrightarrow>
            getStartingBid env vault i amt symbol = getStartingBid env vault' i' amt symbol)"
proof -
  have none: "highestBidSoFar vault i = None"
  proof (cases "batches vault")
    case None
    then show ?thesis by (simp add: highestBidSoFar_def)
  next
    case (Some bs)
    with assms have "length bs \<le> i \<or> highestBid (bs ! i) = None" by simp
    then show ?thesis
    proof (cases "length bs \<le> i")
      case True
      with Some show ?thesis by (simp add: highestBidSoFar_def element_beyond)
    next
      case False
      with Some \<open>length bs \<le> i \<or> highestBid (bs ! i) = None\<close> show ?thesis
        by (simp add: highestBidSoFar_def element_nth)
    qed
  qed
  have other: "highestBidSoFar vault' i' = None"
    if "batches vault' = Some bs'" "element bs' i' = Some b'" "highestBid b' = None"
    for vault' i' bs' b'
    using that by (simp add: highestBidSoFar_def)
  show ?thesis
    using none other
    by (simp add: getStartingBid_def on_object_def factor_105)
qed

theorem getStartingBid_out_of_range_witness:
  "getStartingBid (example_env 1 []) (example_vault []) 3 (Some ''100'') (Some ''DFI'')
     = Inr (Finite 105)
   \<and> getStartingBid (example_env 1 []) (example_vault []) 3 (Some ''100'') (Some ''DFI'')
     = getStartingBid (example_env 1 []) (example_vault [example_batch 0 ''100@DFI'' [] None]) 0
         (Some ''100'') (Some ''DFI'')"
proof -
  let ?env = "example_env 1 []"
  let ?b0 = "example_batch 0 ''100@DFI'' [] None"
  have a: "batches (example_vault []) = None
         \<or> (\<exists>bs. batches (example_vault []) = Some bs
                \<and> (length bs \<le> 3 \<or> highestBid (bs ! 3) = None))"
    by (simp add: example_vault_def)
  have p0: "getPriceInDUSD ?env (Some ''100'') (Some ''DFI'') = Inr (Some (Finite 100))"
    by (simp add: getPriceInDUSD_def example_defs on_object_def of_amount_def parse_defs)
  have v: "batches (example_vault [?b0]) = Some [?b0] \<and> element [?b0] 0 = Some ?b0
         \<and> highestBid ?b0 = None"
    by (simp add: example_vault_def example_batch_def)
  note t = getStartingBid_out_of_range [OF a, where env = ?env and amt = "Some ''100''"
      and symbol = "Some ''DFI''" and p = "Finite 100"]
  from conjunct1 [OF t] p0
  have r0: "getStartingBid ?env (example_vault []) 3 (Some ''100'') (Some ''DFI'')
              = Inr (Finite 105)"
    by simp
  from conjunct2 [OF t, rule_format, OF v]
  have r1: "getStartingBid ?env (example_vault []) 3 (Some ''100'') (Some ''DFI'')
              = getStartingBid ?env (example_vault [?b0]) 0 (Some ''100'') (Some ''DFI'')" .
  from r0 r1 show ?thesis by (rule conjI)
qed

section \<open>The price oracle\<close>

text \<open>
  Claim C6. For a symbol other than DFI whose direct pool with DUSD is reported as not
  found, while the pool of the symbol with DFI and the pool \<^verbatim>\<open>DUSD-DFI\<close> both exist, the
  price is the amount times the ratio of the first hop times the ratio of the second
  hop; for finite values it is the product of the three numbers.
\<close>

theorem getPriceInDUSD_two_hop:
  assumes "symbol \<noteq> Some ''DFI''"
    and "getPoolPair env (template symbol @ ''-DUSD'') = Inl e"
    and "includes_str (message e) ''Pool not found''"
    and "getPoolPair env (template symbol @ ''-DFI'') = Inr (p1 # ps1)"
    and "getPoolPair env ''DUSD-DFI'' = Inr (p2 # ps2)"
  shows "getPriceInDUSD env amt symbol =
           Inr (Some (multipliedBy (multipliedBy (reserveB_reserveA p1) (of_amount amt))
                        (reserveA_reserveB p2)))
       \<and> (\<forall>a r1 r2. of_amount amt = Finite a \<and> reserveB_reserveA p1 = Finite r1
                     \<and> reserveA_reserveB p2 = Finite r2 \<longrightarrow>
            getPriceInDUSD env amt symbol = Inr (Some (Finite (a * r1 * r2))))"
  using assms by (simp add: getPriceInDUSD_def on_object_def mult.commute)

text \<open>The example of the claim: hop ratios 3 and 2, amount 5, price 30.\<close>

theorem getPriceInDUSD_two_hop_witness:
  "getPriceInDUSD (example_env 2 []) (Some ''5'') (Some ''BTC'') = Inr (Some (Finite 30))"
proof -
  let ?env = "example_env 2 []"
  let ?p1 = "\<lparr>reserveA_reserveB = Finite (1 / 3), reserveB_reserveA = Finite 3\<rparr>"
  let ?p2 = "\<lparr>reserveA_reserveB = Finite 2, reserveB_reserveA = Finite (1 / 2)\<rparr>"
  have s: "Some ''BTC'' \<noteq> Some ''DFI''" by simp
  have d: "getPoolPair ?env (template (Some ''BTC'') @ ''-DUSD'') = Inl (Error ''Pool not found'')"
    by (simp add: example_defs template_def)
  have m: "includes_str (message (Error ''Pool not found'')) ''Pool not found''" by simp
  have h1: "getPoolPair ?env (template (Some ''BTC'') @ ''-DFI'') = Inr (?p1 # [])"
    by (simp add: example_defs template_def)
  have h2: "getPoolPair ?env ''DUSD-DFI'' = Inr (?p2 # [])"
    by (simp add: example_defs)
  have a: "of_amount (Some ''5'') = Finite 5" by (simp add: of_amount_def parse_defs)
  from getPriceInDUSD_two_hop [OF s d m h1 h2, where amt = "Some ''5''"] a
  show ?thesis by simp
qed

section \<open>The reward estimator\<close>

text \<open>
  Claim C7, as the code has it. When the conversion of one of the collaterals throws (a
  lookup of the two-hop path is rejected), the reward computation throws. When no
  conversion throws and one returns \<^verbatim>\<open>null\<close> (every other lookup error), the reward
  computation returns, and its result is NaN. Either way the reward is never the sum of
  the prices of the other collaterals. A valuation with the reward NaN has the margin NaN
  and fails the test of the filter in both revisions.
\<close>

theorem getRewardPrice_failure:
  "(c \<in> set cs \<and> pricePromise env c = Inl e \<longrightarrow> (\<exists>e'. getRewardPrice env cs = Inl e'))
   \<and> (c \<in> set cs \<and> pricePromise env c = Inr None
        \<and> (\<forall>d\<in>set cs. \<exists>v. pricePromise env d = Inr v) \<longrightarrow>
      getRewardPrice env cs = Inr NaN)
   \<and> (c \<in> set cs \<and> (\<forall>p. pricePromise env c \<noteq> Inr (Some p)) \<longrightarrow>
      (\<exists>e'. getRewardPrice env cs = Inl e') \<or> getRewardPrice env cs = Inr NaN)
   \<and> (loop_body env a = Inr v \<and> valuation.reward v = NaN \<longrightarrow>
      valuation.margin v = NaN \<and> \<not> passes m v)
   \<and> (loop_body_alt env a = Inr v' \<and> valuation_alt.reward v' = NaN \<longrightarrow>
      valuation_alt.margin v' = NaN \<and> \<not> passes_alt m v')"
proof (intro conjI impI)
  assume h: "c \<in> set cs \<and> pricePromise env c = Inl e"
  then have "c \<in> set cs" by simp
  then have "pricePromise env c \<in> set (map (pricePromise env) cs)" by simp
  with h obtain e' where "Promise_all (map (pricePromise env) cs) = Inl e'"
    using Promise_all_rejected [of "pricePromise env c" "map (pricePromise env) cs" e] by auto
  then show "\<exists>e'. getRewardPrice env cs = Inl e'" by (simp add: getRewardPrice_def)
next
  assume h: "c \<in> set cs \<and> pricePromise env c = Inr None
        \<and> (\<forall>d\<in>set cs. \<exists>v. pricePromise env d = Inr v)"
  then have "\<forall>p\<in>set (map (pricePromise env) cs). \<exists>v. p = Inr v" by auto
  from Promise_all_all_resolved [OF this] obtain prices where
    prices: "Promise_all (map (pricePromise env) cs) = Inr prices" by blast
  from Promise_all_resolved [OF prices]
  have eq: "map (pricePromise env) cs = map Inr prices" .
  from h have "c \<in> set cs" by simp
  then have "pricePromise env c \<in> set (map (pricePromise env) cs)" by simp
  with h have "None \<in> set prices" unfolding eq by auto
  with prices show "getRewardPrice env cs = Inr NaN"
    by (simp add: getRewardPrice_def foldl_plus_null)
next
  assume h: "c \<in> set cs \<and> (\<forall>p. pricePromise env c \<noteq> Inr (Some p))"
  show "(\<exists>e'. getRewardPrice env cs = Inl e') \<or> getRewardPrice env cs = Inr NaN"
  proof (cases "Promise_all (map (pricePromise env) cs)")
    case (Inl e')
    then show ?thesis by (simp add: getRewardPrice_def)
  next
    case (Inr prices)
    from Promise_all_resolved [OF Inr]
    have eq: "map (pricePromise env) cs = map Inr prices" .
    from h have "c \<in> set cs" by simp
    then have "pricePromise env c \<in> set (map (pricePromise env) cs)" by simp
    then obtain w where w: "w \<in> set prices" "pricePromise env c = Inr w"
      unfolding eq by auto
    with h have "w = None" by (cases w) auto
    with w have "None \<in> set prices" by simp
    then show ?thesis using Inr by (simp add: getRewardPrice_def foldl_plus_null)
  qed
next
  assume h: "loop_body env a = Inr v \<and> valuation.reward v = NaN"
  then have "valuation.margin v =
      multipliedBy (dividedBy (ROUNDING env) (minus_bn (valuation.reward v) (minBidDusd v))
        (minBidDusd v)) (Finite 100)"
    by (auto simp: loop_body_def Let_def split: sum.splits)
  with h show m: "valuation.margin v = NaN" by (simp add: margin_NaN)
  then show "\<not> passes m v" by (simp add: passes_def isGreaterThanOrEqualTo_def)
next
  assume h: "loop_body_alt env a = Inr v' \<and> valuation_alt.reward v' = NaN"
  then have "valuation_alt.margin v' =
      multipliedBy (dividedBy (ROUNDING env)
        (minus_bn (valuation_alt.reward v') (valuation_alt.minBid v'))
        (valuation_alt.minBid v')) (Finite 100)"
    by (auto simp: loop_body_alt_def Let_def split: sum.splits)
  with h show m: "valuation_alt.margin v' = NaN" by (simp add: margin_NaN)
  then show "\<not> passes_alt m v'" by (simp add: passes_alt_def isGreaterThanOrEqualTo_def)
qed

text \<open>
  With a collateral whose pool lookup fails with a connection error the reward is NaN,
  and with a collateral whose two-hop lookup fails the reward computation throws; the
  other collateral, worth 30, does not show in either result. The batch with the reward
  NaN does not pass the filter.
\<close>

theorem getRewardPrice_failure_witness:
  "getRewardPrice (example_env 2 []) [''5@BTC'', ''1@ETH''] = Inr NaN
   \<and> (\<exists>e'. getRewardPrice (example_env 2 []) [''5@BTC'', ''1@XYZ''] = Inl e')
   \<and> \<not> passes (Finite 0) (example_row 0 (Finite 105) NaN NaN NaN (Some NaN) ''100'')"
proof -
  let ?env = "example_env 2 []"
  have m1: "''1@ETH'' \<in> set [''5@BTC'', ''1@ETH'']" by simp
  have m2: "''1@XYZ'' \<in> set [''5@BTC'', ''1@XYZ'']" by simp
  have f1: "pricePromise ?env ''1@ETH'' = Inr None"
    by (simp add: pricePromise_def getPriceInDUSD_def example_defs template_def)
  have a1: "\<forall>d\<in>set [''5@BTC'', ''1@ETH'']. \<exists>v. pricePromise ?env d = Inr v"
    by (simp add: pricePromise_def getPriceInDUSD_def example_defs template_def on_object_def)
  have f2: "pricePromise ?env ''1@XYZ'' = Inl (Error ''Pool not found'')"
    by (simp add: pricePromise_def getPriceInDUSD_def example_defs template_def)
  have r: "valuation.reward (example_row 0 (Finite 105) NaN NaN NaN (Some NaN) ''100'') = NaN"
    by (simp add: example_row_def)
  note t = getRewardPrice_failure [where env = ?env]
  from t [where c = "''1@ETH''" and cs = "[''5@BTC'', ''1@ETH'']", THEN conjunct2,
      THEN conjunct1, rule_format, OF conjI [OF m1 conjI [OF f1 a1]]]
  have r1: "getRewardPrice ?env [''5@BTC'', ''1@ETH''] = Inr NaN" .
  from t [where c = "''1@XYZ''" and cs = "[''5@BTC'', ''1@XYZ'']", THEN conjunct1,
      rule_format, OF conjI [OF m2 f2]]
  have r2: "\<exists>e'. getRewardPrice ?env [''5@BTC'', ''1@XYZ''] = Inl e'" .
  from getRewardPrice_failure [where env = "example_env 1 [failing_collateral_vault]"
      and m = "Finite 0", THEN conjunct2, THEN conjunct2, THEN conjunct2, THEN conjunct1,
      rule_format, OF conjI [OF failing_collateral_body r]]
  have r3: "\<not> passes (Finite 0) (example_row 0 (Finite 105) NaN NaN NaN (Some NaN) ''100'')"
    by simp
  from r1 r2 r3 show ?thesis by (intro conjI)
qed

text \<open>
  The conversion of \<^verbatim>\<open>1@ETH\<close> fails and returns \<^verbatim>\<open>null\<close>; the reward computation
  does not fail: it returns NaN, the loop body returns a valuation, and the request is
  answered with the other batch.
\<close>

theorem reward_failure_counterexample:
  "pricePromise (example_env 2 []) ''1@ETH'' = Inr None
   \<and> getRewardPrice (example_env 2 []) [''5@BTC'', ''1@ETH''] = Inr NaN
   \<and> loop_body (example_env 1 [failing_collateral_vault])
       (example_auction 0 ''100@DFI'' [''1@ETH''] None)
     = Inr (example_row 0 (Finite 105) NaN NaN NaN (Some NaN) ''100'')
   \<and> get_auction_list (example_env 1 [failing_collateral_vault]) (example_request None) =
     Json [example_row 1 (ToString (Finite 105)) (ToString (Finite 126))
             (ToString (Finite 21)) (ToString (Finite 20))
             (ToString (Finite (6237 / 50))) ''100'']"
proof -
  have a: "pricePromise (example_env 2 []) ''1@ETH'' = Inr None"
    by (simp add: pricePromise_def getPriceInDUSD_def example_defs template_def)
  have b: "getRewardPrice (example_env 2 []) [''5@BTC'', ''1@ETH''] = Inr NaN"
    by (simp add: getRewardPrice_def pricePromise_def getPriceInDUSD_def example_defs
        template_def on_object_def of_amount_def parse_defs)
  from a b failing_collateral_body failing_collateral_example show ?thesis by (intro conjI)
qed



section \<open>The report\<close>

text \<open>
  Claim C1, evaluated where the code departs from it. The first batch of the vault has
  its loan in ETH, whose pool lookup fails with a connection error: \<open>getPriceInDUSD\<close>
  returns \<^verbatim>\<open>null\<close>, \<open>getStartingBid\<close> calls a method on it and throws, and the
  response of both revisions is the server error, although the second batch is sound.
  When it is a collateral of the first batch that fails to convert, the batch is skipped
  and the second batch is reported.
\<close>

theorem price_failure_escalates:
  "getPriceInDUSD (example_env 1 [failing_loan_vault]) (Some ''1'') (Some ''ETH'') = Inr None
   \<and> getStartingBid (example_env 1 [failing_loan_vault]) failing_loan_vault 0
        (Some ''1'') (Some ''ETH'') = Inl TypeError
   \<and> get_auction_list (example_env 1 [failing_loan_vault]) (example_request None)
        = internal_server_error
   \<and> get_auction_list_alt (example_env 1 [failing_loan_vault]) (example_request None)
        = internal_server_error
   \<and> get_auction_list (example_env 1 [failing_collateral_vault]) (example_request None)
        = Json [example_row 1 (ToString (Finite 105)) (ToString (Finite 126))
                  (ToString (Finite 21)) (ToString (Finite 20))
                  (ToString (Finite (6237 / 50))) ''100'']"
proof -
  have p: "getPriceInDUSD (example_env 1 [failing_loan_vault]) (Some ''1'') (Some ''ETH'')
             = Inr None"
    by (simp add: getPriceInDUSD_def example_defs template_def)
  have "highestBidSoFar failing_loan_vault 0 = None"
    by (simp add: highestBidSoFar_def failing_loan_vault_def example_vault_def
        example_batch_def)
  with p have b: "getStartingBid (example_env 1 [failing_loan_vault]) failing_loan_vault 0
             (Some ''1'') (Some ''ETH'') = Inl TypeError"
    by (simp add: getStartingBid_def on_object_def)
  from p b failing_loan_example failing_loan_example_alt failing_collateral_example
  show ?thesis by (intro conjI)
qed

text \<open>
  Claim C2, as the code has it. In the second revision the result is sorted with
  \<open>sortyByMargin\<close>, which puts the larger margin first, and then reversed: the list of
  the response is in ascending order of margin. In part_000 the result is not sorted:
  the response lists the batches that pass the filter in the order of the auction list.
\<close>

theorem sorted_ascending:
  "(get_auction_list_alt env req = Json out \<longrightarrow>
      (\<forall>i j. i < j \<and> j < length out \<longrightarrow>
         isGreaterThanOrEqualTo (number_of (valuation_alt.margin (out ! j)))
           (number_of (valuation_alt.margin (out ! i)))))
   \<and> (get_auction_list env req = Json out' \<longrightarrow>
      (\<exists>as vs. getAvailableAuctions env (parseInt (limit req)) = Inr as
         \<and> map_throwing (loop_body env) as = Inr vs
         \<and> map_throwing render (filter (passes (threshold req)) vs) = Inr out'))"
proof (intro conjI impI allI)
  fix i j
  assume json: "get_auction_list_alt env req = Json out" and ij: "i < j \<and> j < length out"
  from get_auction_list_alt_Json [OF json] obtain as vs where
    out: "out = map render_alt
            (rev (sort_array sortyByMargin (filter (passes_alt (threshold req)) vs)))"
    by blast
  let ?kept = "filter (passes_alt (threshold req)) vs"
  have "\<forall>x\<in>set ?kept. valuation_alt.margin x \<noteq> NaN"
    by (auto simp: passes_alt_def dest: gte_not_NaN)
  then have "sorted_wrt descending (sort_array sortyByMargin ?kept)"
    by (rule sorted_sort_array)
  then have "sorted_wrt (\<lambda>a b. descending b a) (rev (sort_array sortyByMargin ?kept))"
    by (simp add: sorted_wrt_rev)
  then have "sorted_wrt (\<lambda>a b. isGreaterThanOrEqualTo (number_of (valuation_alt.margin b))
                (number_of (valuation_alt.margin a))) out"
    unfolding out by (simp add: sorted_wrt_map descending_def render_alt_def)
  with ij show "isGreaterThanOrEqualTo (number_of (valuation_alt.margin (out ! j)))
           (number_of (valuation_alt.margin (out ! i)))"
    by (simp add: sorted_wrt_iff_nth_less)
next
  assume "get_auction_list env req = Json out'"
  then show "\<exists>as vs. getAvailableAuctions env (parseInt (limit req)) = Inr as
         \<and> map_throwing (loop_body env) as = Inr vs
         \<and> map_throwing render (filter (passes (threshold req)) vs) = Inr out'"
    by (rule get_auction_list_Json)
qed

text \<open>
  The margins 5, 20 and 12 percent, in this order in the auction list: the second
  revision answers 5, 12, 20, and part_000 answers 5, 20, 12.
\<close>

theorem sorted_ascending_witness:
  "isGreaterThanOrEqualTo (Finite 12) (Finite 5) \<and> isGreaterThanOrEqualTo (Finite 20) (Finite 12)
   \<and> (\<exists>as vs. getAvailableAuctions (example_env 1 [margins_vault])
                  (parseInt (limit (example_request None))) = Inr as
         \<and> map_throwing (loop_body (example_env 1 [margins_vault])) as = Inr vs
         \<and> map_throwing render (filter (passes (threshold (example_request None))) vs) =
             Inr [example_row 0 (ToString (Finite 105)) (ToString (Finite (441 / 4)))
                    (ToString (Finite (21 / 4))) (ToString (Finite 5))
                    (ToString (Finite (43659 / 400))) ''100'',
                  example_row 1 (ToString (Finite 105)) (ToString (Finite 126))
                    (ToString (Finite 21)) (ToString (Finite 20))
                    (ToString (Finite (6237 / 50))) ''100'',
                  example_row 2 (ToString (Finite 105)) (ToString (Finite (588 / 5)))
                    (ToString (Finite (63 / 5))) (ToString (Finite 12))
                    (ToString (Finite (14553 / 125))) ''100''])"
proof -
  note t = sorted_ascending [where env = "example_env 1 [margins_vault]"
      and req = "example_request None"]
  from t [THEN conjunct1, rule_format, OF margins_example_alt, where i = 0 and j = 1]
  have a: "isGreaterThanOrEqualTo (Finite 12) (Finite 5)"
    by (simp add: example_row_alt_def)
  from t [THEN conjunct1, rule_format, OF margins_example_alt, where i = 1 and j = 2]
  have b: "isGreaterThanOrEqualTo (Finite 20) (Finite 12)"
    by (simp add: example_row_alt_def)
  from t [THEN conjunct2, rule_format, OF margins_example] a b
  show ?thesis by (intro conjI)
qed

theorem descending_order_counterexample:
  "get_auction_list_alt (example_env 1 [margins_vault]) (example_request None) =
     Json [example_row_alt 0 (ToPrecision 10 (Finite 105) '' DUSD'')
             (ToPrecision 10 (Finite (441 / 4)) '' DUSD'')
             (ToPrecision 7 (Finite (21 / 4)) '' DUSD'') (ToPrecision 5 (Finite 5) ''%''),
           example_row_alt 2 (ToPrecision 10 (Finite 105) '' DUSD'')
             (ToPrecision 10 (Finite (588 / 5)) '' DUSD'')
             (ToPrecision 7 (Finite (63 / 5)) '' DUSD'') (ToPrecision 5 (Finite 12) ''%''),
           example_row_alt 1 (ToPrecision 10 (Finite 105) '' DUSD'')
             (ToPrecision 10 (Finite 126) '' DUSD'')
             (ToPrecision 7 (Finite 21) '' DUSD'') (ToPrecision 5 (Finite 20) ''%'')]
   \<and> \<not> isGreaterThanOrEqualTo (Finite 5) (Finite 12)
   \<and> get_auction_list (example_env 1 [margins_vault]) (example_request None) =
     Json [example_row 0 (ToString (Finite 105)) (ToString (Finite (441 / 4)))
             (ToString (Finite (21 / 4))) (ToString (Finite 5))
             (ToString (Finite (43659 / 400))) ''100'',
           example_row 1 (ToString (Finite 105)) (ToString (Finite 126))
             (ToString (Finite 21)) (ToString (Finite 20))
             (ToString (Finite (6237 / 50))) ''100'',
           example_row 2 (ToString (Finite 105)) (ToString (Finite (588 / 5)))
             (ToString (Finite (63 / 5))) (ToString (Finite 12))
             (ToString (Finite (14553 / 125))) ''100'']
   \<and> \<not> isGreaterThanOrEqualTo (Finite 5) (Finite 20)"
proof -
  have a: "\<not> isGreaterThanOrEqualTo (Finite 5) (Finite 12)"
    by (simp add: isGreaterThanOrEqualTo_def)
  have b: "\<not> isGreaterThanOrEqualTo (Finite 5) (Finite 20)"
    by (simp add: isGreaterThanOrEqualTo_def)
  from margins_example_alt a margins_example b show ?thesis by (intro conjI)
qed

text \<open>
  Claim C3, as the code has it. When the request is answered with a list, a batch of the
  auction list whose valuation is computed is in the list exactly when it passes the test
  of its revision: in part_000 the margin is at least the threshold, the difference
  exceeds 1 and the starting bid is below 8000; in the second revision the margin is at
  least the threshold. The threshold is 0 when the query has no minimum margin.
\<close>

theorem margin_filter:
  "(get_auction_list env req = Json out
      \<and> getAvailableAuctions env (parseInt (limit req)) = Inr as \<and> a \<in> set as
      \<and> loop_body env a = Inr v \<longrightarrow>
      ((\<exists>r\<in>set out. render v = Inr r) \<longleftrightarrow>
         isGreaterThanOrEqualTo (valuation.margin v) (threshold req)
         \<and> isGreaterThan (valuation.diff v) (Finite 1)
         \<and> isLessThan (minBidDusd v) (Finite 8000)))
   \<and> (get_auction_list_alt env req = Json out'
      \<and> getAvailableAuctions env (parseInt (limit req)) = Inr as \<and> a \<in> set as
      \<and> loop_body_alt env a = Inr v' \<longrightarrow>
      (render_alt v' \<in> set out' \<longleftrightarrow>
         isGreaterThanOrEqualTo (valuation_alt.margin v') (threshold req)))
   \<and> (minMarginPercentage req = None \<longrightarrow> threshold req = Finite 0)"
proof (intro conjI impI)
  assume h: "get_auction_list env req = Json out
      \<and> getAvailableAuctions env (parseInt (limit req)) = Inr as \<and> a \<in> set as
      \<and> loop_body env a = Inr v"
  from get_auction_list_Json [of env req out] h obtain vs where
    vs: "map_throwing (loop_body env) as = Inr vs"
    and out: "map_throwing render (filter (passes (threshold req)) vs) = Inr out"
    by auto
  from h have v: "v \<in> set vs" using map_throwing_set [OF vs, of v] by auto
  have "(\<exists>r\<in>set out. render v = Inr r) \<longleftrightarrow> passes (threshold req) v"
  proof
    assume "\<exists>r\<in>set out. render v = Inr r"
    then obtain r where r: "r \<in> set out" "render v = Inr r" by blast
    from r(1) map_throwing_set [OF out, of r] obtain w where
      w: "w \<in> set (filter (passes (threshold req)) vs)" "render w = Inr r" by auto
    from render_inj [OF r(2) w(2)] w(1) show "passes (threshold req) v" by simp
  next
    assume "passes (threshold req) v"
    with v have "v \<in> set (filter (passes (threshold req)) vs)" by simp
    moreover from this out obtain r where "render v = Inr r"
      using map_throwing_rejected [of v _ render] by (cases "render v") fastforce+
    ultimately show "\<exists>r\<in>set out. render v = Inr r"
      using map_throwing_set [OF out] by blast
  qed
  then show "(\<exists>r\<in>set out. render v = Inr r) \<longleftrightarrow>
         isGreaterThanOrEqualTo (valuation.margin v) (threshold req)
         \<and> isGreaterThan (valuation.diff v) (Finite 1)
         \<and> isLessThan (minBidDusd v) (Finite 8000)"
    by (simp add: passes_def)
next
  assume h: "get_auction_list_alt env req = Json out'
      \<and> getAvailableAuctions env (parseInt (limit req)) = Inr as \<and> a \<in> set as
      \<and> loop_body_alt env a = Inr v'"
  from get_auction_list_alt_Json [of env req out'] h obtain vs where
    vs: "map_throwing (loop_body_alt env) as = Inr vs"
    and out: "out' = map render_alt
            (rev (sort_array sortyByMargin (filter (passes_alt (threshold req)) vs)))"
    by auto
  from h have v: "v' \<in> set vs" using map_throwing_set [OF vs, of v'] by auto
  have "render_alt v' \<in> set out' \<longleftrightarrow> v' \<in> set (filter (passes_alt (threshold req)) vs)"
    unfolding out by (auto simp: set_sort_array dest: render_alt_inj)
  with v show "render_alt v' \<in> set out' \<longleftrightarrow>
         isGreaterThanOrEqualTo (valuation_alt.margin v') (threshold req)"
    by (simp add: passes_alt_def)
next
  assume "minMarginPercentage req = None"
  then show "threshold req = Finite 0" by (simp add: threshold_def)
qed

text \<open>
  The example of the claim with a starting bid of 105 and a reward of 126, margin 20
  percent: with the minimum margin 20 the batch is in the response of both revisions,
  with the minimum margin 25 the response is empty and the margin test is the one that
  fails.
\<close>

theorem margin_filter_witness:
  "(\<exists>r\<in>set [example_row 0 (ToString (Finite 105)) (ToString (Finite 126))
                (ToString (Finite 21)) (ToString (Finite 20))
                (ToString (Finite (6237 / 50))) ''100''].
       render (example_row 0 (Finite 105) (Finite 126) (Finite 21) (Finite 20)
                 (Some (Finite (6237 / 50))) ''100'') = Inr r)
   \<and> isGreaterThanOrEqualTo (Finite 20) (threshold (example_request (Some ''20'')))
   \<and> \<not> isGreaterThanOrEqualTo (Finite 20) (threshold (example_request (Some ''25'')))
   \<and> threshold (example_request None) = Finite 0"
proof -
  let ?env = "example_env 1 [single_vault]"
  let ?req = "example_request (Some ''20'')"
  let ?req' = "example_request (Some ''25'')"
  let ?a = "example_auction 0 ''100@DFI'' [''126@DFI''] None"
  let ?v = "example_row 0 (Finite 105) (Finite 126) (Finite 21) (Finite 20)
              (Some (Finite (6237 / 50))) ''100''"
  let ?v' = "example_row_alt 0 (Finite 105) (Finite 126) (Finite 21) (Finite 20)"
  have th: "threshold ?req = Finite 20"
    by (simp add: threshold_def example_request_def parse_defs)
  have pass: "isGreaterThanOrEqualTo (valuation.margin ?v) (threshold ?req)
      \<and> isGreaterThan (valuation.diff ?v) (Finite 1) \<and> isLessThan (minBidDusd ?v) (Finite 8000)"
    by (simp add: th example_row_def isGreaterThanOrEqualTo_def isGreaterThan_def
        isLessThan_def)
  have rest: "isGreaterThan (valuation.diff ?v) (Finite 1)
      \<and> isLessThan (minBidDusd ?v) (Finite 8000)"
    by (simp add: example_row_def isGreaterThan_def isLessThan_def)
  have m: "?a \<in> set [?a]" by simp
  note t = margin_filter [where env = ?env and req = ?req and a = ?a and as = "[?a]"
      and v = ?v and v' = ?v']
  note t' = margin_filter [where env = ?env and req = ?req' and a = ?a and as = "[?a]"
      and v = ?v and out = "[]"]
  from t [THEN conjunct1, rule_format, OF conjI [OF single_20 conjI [OF single_auctions
      conjI [OF m single_body]]]] pass
  have r1: "\<exists>r\<in>set [example_row 0 (ToString (Finite 105)) (ToString (Finite 126))
                (ToString (Finite 21)) (ToString (Finite 20))
                (ToString (Finite (6237 / 50))) ''100'']. render ?v = Inr r"
    by simp
  from t [THEN conjunct2, THEN conjunct1, rule_format, OF conjI [OF single_20_alt
      conjI [OF single_auctions conjI [OF m single_body_alt]]]]
  have r2: "isGreaterThanOrEqualTo (Finite 20) (threshold ?req)"
    by (simp add: example_row_alt_def render_alt_def)
  from t' [THEN conjunct1, rule_format, OF conjI [OF single_25 conjI [OF single_auctions
      conjI [OF m single_body]]]] rest
  have r3: "\<not> isGreaterThanOrEqualTo (Finite 20) (threshold ?req')"
    by (simp add: example_row_def)
  have "minMarginPercentage (example_request None) = None"
    by (simp add: example_request_def)
  from margin_filter [where req = "example_request None", THEN conjunct2, THEN conjunct2,
      rule_format, OF this]
  have r4: "threshold (example_request None) = Finite 0" .
  from r1 r2 r3 r4 show ?thesis by (intro conjI)
qed

text \<open>
  A batch with a starting bid of 0.525 and a reward of 1.05 has a margin of 100 percent,
  above the default threshold, and is not in the response of part_000: the difference
  does not exceed 1.
\<close>

theorem margin_filter_counterexample:
  "loop_body (example_env 1 [small_vault]) (example_auction 0 ''0.5@DFI'' [''1.05@DFI''] None)
     = Inr (example_row 0 (Finite (21 / 40)) (Finite (21 / 20)) (Finite (21 / 40)) (Finite 100)
              (Some (Finite (2079 / 2000))) ''0.5'')
   \<and> isGreaterThanOrEqualTo (Finite 100) (threshold (example_request None))
   \<and> get_auction_list (example_env 1 [small_vault]) (example_request None) = Json []"
proof -
  have "isGreaterThanOrEqualTo (Finite 100) (threshold (example_request None))"
    by (simp add: threshold_def example_request_def isGreaterThanOrEqualTo_def)
  with small_body small_example show ?thesis by (intro conjI)
qed

text \<open>
  Claim C4, as the code has it. A failed fetch of the auction list answers the request
  with the server error in both revisions. A failed fetch of the vault of a batch of the
  list does so in part_000. In the second revision \<open>getHighestBidSoFar\<close> catches the
  failed vault fetch and reports no highest bid: when the loan amount converts to the
  price \<open>p\<close>, the starting bid of the batch is \<open>p\<close> times 1.05, and the request is
  answered with a list whenever, for every batch, the reward is computed and the starting
  bid is computed or the vault fetch fails and the loan amount converts to a price.
\<close>

theorem fetch_failure:
  "(listAuctions env (parseInt (limit req)) = Inl e \<longrightarrow>
      get_auction_list env req = internal_server_error
      \<and> get_auction_list_alt env req = internal_server_error)
   \<and> (getAvailableAuctions env (parseInt (limit req)) = Inr as \<and> a \<in> set as
      \<and> getVault env (auction.vaultId a) = Inl e \<longrightarrow>
      get_auction_list env req = internal_server_error)
   \<and> (getVault env vaultId' = Inl e \<longrightarrow> getHighestBidSoFar env vaultId' i = None)
   \<and> (getVault env (auction.vaultId a) = Inl e
      \<and> getPriceInDUSD env (element (split CHR ''@'' (loan a)) 0)
           (element (split CHR ''@'' (loan a)) 1) = Inr (Some p) \<longrightarrow>
      getStartingBid_alt env a = Inr (multipliedBy p (Finite (105 / 100))))
   \<and> (getAvailableAuctions env (parseInt (limit req)) = Inr as
      \<and> (\<forall>b\<in>set as.
            (\<exists>r. getRewardPrice env (collaterals b) = Inr r)
            \<and> ((\<exists>s. getStartingBid_alt env b = Inr s)
               \<or> (\<exists>e'. getVault env (auction.vaultId b) = Inl e')
                 \<and> (\<exists>q. getPriceInDUSD env (element (split CHR ''@'' (loan b)) 0)
                            (element (split CHR ''@'' (loan b)) 1) = Inr (Some q)))) \<longrightarrow>
      (\<exists>out. get_auction_list_alt env req = Json out))"
proof (intro conjI impI)
  assume "listAuctions env (parseInt (limit req)) = Inl e"
  then have "getAvailableAuctions env (parseInt (limit req)) = Inl e"
    by (rule getAvailableAuctions_rejected)
  then show "get_auction_list env req = internal_server_error"
    and "get_auction_list_alt env req = internal_server_error"
    by (simp_all add: get_auction_list_def get_auction_list_alt_def)
next
  assume h: "getAvailableAuctions env (parseInt (limit req)) = Inr as \<and> a \<in> set as
      \<and> getVault env (auction.vaultId a) = Inl e"
  then have "loop_body env a = Inl e" by (simp add: loop_body_getVault)
  with h obtain e' where "map_throwing (loop_body env) as = Inl e'"
    using map_throwing_rejected [of a as "loop_body env" e] by auto
  with h show "get_auction_list env req = internal_server_error"
    by (simp add: get_auction_list_def for_loop_eq)
next
  assume "getVault env vaultId' = Inl e"
  then show "getHighestBidSoFar env vaultId' i = None"
    by (simp add: getHighestBidSoFar_def)
next
  assume "getVault env (auction.vaultId a) = Inl e
      \<and> getPriceInDUSD env (element (split CHR ''@'' (loan a)) 0)
           (element (split CHR ''@'' (loan a)) 1) = Inr (Some p)"
  then show "getStartingBid_alt env a = Inr (multipliedBy p (Finite (105 / 100)))"
    by (simp add: getStartingBid_alt_unreachable)
next
  assume h: "getAvailableAuctions env (parseInt (limit req)) = Inr as
      \<and> (\<forall>b\<in>set as.
            (\<exists>r. getRewardPrice env (collaterals b) = Inr r)
            \<and> ((\<exists>s. getStartingBid_alt env b = Inr s)
               \<or> (\<exists>e'. getVault env (auction.vaultId b) = Inl e')
                 \<and> (\<exists>q. getPriceInDUSD env (element (split CHR ''@'' (loan b)) 0)
                            (element (split CHR ''@'' (loan b)) 1) = Inr (Some q))))"
  have "\<exists>v. loop_body_alt env b = Inr v" if b: "b \<in> set as" for b
  proof -
    from h b obtain r where r: "getRewardPrice env (collaterals b) = Inr r" by blast
    from h b have "(\<exists>s. getStartingBid_alt env b = Inr s)
               \<or> (\<exists>e'. getVault env (auction.vaultId b) = Inl e')
                 \<and> (\<exists>q. getPriceInDUSD env (element (split CHR ''@'' (loan b)) 0)
                            (element (split CHR ''@'' (loan b)) 1) = Inr (Some q))"
      by blast
    then obtain s where "getStartingBid_alt env b = Inr s"
      using getStartingBid_alt_unreachable [of env b] by blast
    with r show ?thesis by (simp add: loop_body_alt_def Let_def)
  qed
  then have "\<forall>b\<in>set as. \<exists>v. loop_body_alt env b = Inr v" by blast
  from map_throwing_all [OF this] obtain vs where
    "map_throwing (loop_body_alt env) as = Inr vs" by blast
  with h show "\<exists>out. get_auction_list_alt env req = Json out"
    by (simp add: get_auction_list_alt_def for_loop_alt_eq)
qed

theorem fetch_failure_witness:
  "get_auction_list (list_unreachable (example_env 1 [single_vault])) (example_request None)
     = internal_server_error
   \<and> get_auction_list_alt (list_unreachable (example_env 1 [single_vault])) (example_request None)
     = internal_server_error
   \<and> get_auction_list (vaults_unreachable (example_env 1 [single_vault])) (example_request None)
     = internal_server_error
   \<and> getHighestBidSoFar (vaults_unreachable (example_env 1 [single_vault])) ''v1'' 0 = None
   \<and> getStartingBid_alt (vaults_unreachable (example_env 1 [single_vault]))
       (example_auction 0 ''100@DFI'' [''126@DFI''] None) = Inr (Finite 105)
   \<and> (\<exists>out. get_auction_list_alt (vaults_unreachable (example_env 1 [single_vault]))
          (example_request None) = Json out)"
proof -
  let ?e = "Error ''connect ECONNREFUSED''"
  let ?req = "example_request None"
  let ?a = "example_auction 0 ''100@DFI'' [''126@DFI''] None"
  let ?env = "vaults_unreachable (example_env 1 [single_vault])"
  have l: "listAuctions (list_unreachable (example_env 1 [single_vault])) (parseInt (limit ?req))
             = Inl ?e"
    by (simp add: list_unreachable_def)
  have m: "?a \<in> set [?a]" by simp
  have g: "getVault ?env (auction.vaultId ?a) = Inl ?e"
    by (simp add: vaults_unreachable_def)
  have g': "getVault ?env ''v1'' = Inl ?e"
    by (simp add: vaults_unreachable_def)
  have all: "\<forall>b\<in>set [?a].
            (\<exists>r. getRewardPrice ?env (collaterals b) = Inr r)
            \<and> ((\<exists>s. getStartingBid_alt ?env b = Inr s)
               \<or> (\<exists>e'. getVault ?env (auction.vaultId b) = Inl e')
                 \<and> (\<exists>q. getPriceInDUSD ?env (element (split CHR ''@'' (loan b)) 0)
                            (element (split CHR ''@'' (loan b)) 1) = Inr (Some q)))"
    using unreachable_reward unreachable_price g by simp
  from fetch_failure [where env = "list_unreachable (example_env 1 [single_vault])"
      and req = ?req and e = ?e, THEN conjunct1, rule_format, OF l]
  have r1: "get_auction_list (list_unreachable (example_env 1 [single_vault])) ?req
              = internal_server_error
          \<and> get_auction_list_alt (list_unreachable (example_env 1 [single_vault])) ?req
              = internal_server_error" .
  note t = fetch_failure [where env = ?env and req = ?req and e = ?e and a = ?a
      and as = "[?a]" and vaultId' = "''v1''" and i = 0 and p = "Finite 100"]
  from t [THEN conjunct2, THEN conjunct1, rule_format,
      OF conjI [OF unreachable_auctions conjI [OF m g]]]
  have r2: "get_auction_list ?env ?req = internal_server_error" .
  from t [THEN conjunct2, THEN conjunct2, THEN conjunct1, rule_format, OF g']
  have r3: "getHighestBidSoFar ?env ''v1'' 0 = None" .
  from t [THEN conjunct2, THEN conjunct2, THEN conjunct2, THEN conjunct1, rule_format,
      OF conjI [OF g unreachable_price]]
  have r4: "getStartingBid_alt ?env ?a = Inr (Finite 105)" by simp
  from t [THEN conjunct2, THEN conjunct2, THEN conjunct2, THEN conjunct2, rule_format,
      OF conjI [OF unreachable_auctions all]]
  have r5: "\<exists>out. get_auction_list_alt ?env ?req = Json out" .
  from r1 r2 r3 r4 r5 show ?thesis by simp
qed

text \<open>
  With every vault fetch failing, the second revision still answers with the valuation
  of the batch.
\<close>

theorem vault_fetch_failure_counterexample:
  "getVault (vaults_unreachable (example_env 1 [single_vault])) ''v1''
     = Inl (Error ''connect ECONNREFUSED'')
   \<and> get_auction_list_alt (vaults_unreachable (example_env 1 [single_vault]))
       (example_request None) =
     Json [example_row_alt 0 (ToPrecision 10 (Finite 105) '' DUSD'')
             (ToPrecision 10 (Finite 126) '' DUSD'')
             (ToPrecision 7 (Finite 21) '' DUSD'') (ToPrecision 5 (Finite 20) ''%'')]"
proof -
  have "getVault (vaults_unreachable (example_env 1 [single_vault])) ''v1''
          = Inl (Error ''connect ECONNREFUSED'')"
    by (simp add: vaults_unreachable_def)
  with unreachable_example_alt show ?thesis by (intro conjI)
qed

text \<open>
  Claim C9, as the code has it. In both revisions the difference is the reward minus the
  starting bid, and the margin is the difference divided by the starting bid, times 100,
  in the arithmetic of the decimal library. For a finite reward \<open>r\<close> and a finite
  starting bid \<open>s\<close> other than zero that is the rounded quotient of \<open>r - s\<close> by \<open>s\<close>,
  times 100. For a starting bid of zero the division is made all the same: the margin
  is an infinity when the reward is not zero, and NaN when it is. No test skips such a
  batch: when the request is answered with a list and the minimum margin is finite, a
  batch with the margin plus infinity is in the response of the second revision, and in
  the response of part_000 when its starting bid is zero and its reward exceeds 1.
\<close>

theorem margin_formula:
  "(loop_body env a = Inr v \<longrightarrow>
      valuation.diff v = minus_bn (valuation.reward v) (minBidDusd v)
      \<and> valuation.margin v =
          multipliedBy (dividedBy (ROUNDING env) (valuation.diff v) (minBidDusd v)) (Finite 100)
      \<and> (\<forall>r s. valuation.reward v = Finite r \<and> minBidDusd v = Finite s \<longrightarrow>
            (s \<noteq> 0 \<longrightarrow> valuation.margin v = Finite (ROUNDING env ((r - s) / s) * 100))
            \<and> (s = 0 \<and> r \<noteq> 0 \<longrightarrow>
                 valuation.margin v = PosInfinity \<or> valuation.margin v = NegInfinity)
            \<and> (s = 0 \<and> r = 0 \<longrightarrow> valuation.margin v = NaN)))
   \<and> (loop_body_alt env a = Inr v' \<longrightarrow>
      valuation_alt.diff v' = minus_bn (valuation_alt.reward v') (valuation_alt.minBid v')
      \<and> valuation_alt.margin v' =
          multipliedBy (dividedBy (ROUNDING env) (valuation_alt.diff v') (valuation_alt.minBid v'))
            (Finite 100)
      \<and> (\<forall>r s. valuation_alt.reward v' = Finite r \<and> valuation_alt.minBid v' = Finite s \<longrightarrow>
            (s \<noteq> 0 \<longrightarrow> valuation_alt.margin v' = Finite (ROUNDING env ((r - s) / s) * 100))
            \<and> (s = 0 \<and> r \<noteq> 0 \<longrightarrow>
                 valuation_alt.margin v' = PosInfinity \<or> valuation_alt.margin v' = NegInfinity)
            \<and> (s = 0 \<and> r = 0 \<longrightarrow> valuation_alt.margin v' = NaN)))
   \<and> (get_auction_list env req = Json out
      \<and> getAvailableAuctions env (parseInt (limit req)) = Inr as \<and> a \<in> set as
      \<and> loop_body env a = Inr v \<and> minBidDusd v = Finite 0 \<and> valuation.reward v = Finite r
      \<and> 1 < r \<and> valuation.margin v = PosInfinity \<and> threshold req = Finite t \<longrightarrow>
      (\<exists>x\<in>set out. render v = Inr x))
   \<and> (get_auction_list_alt env req = Json out'
      \<and> getAvailableAuctions env (parseInt (limit req)) = Inr as \<and> a \<in> set as
      \<and> loop_body_alt env a = Inr v' \<and> valuation_alt.margin v' = PosInfinity
      \<and> threshold req = Finite t \<longrightarrow>
      render_alt v' \<in> set out')"
proof (intro conjI impI)
  assume h: "loop_body env a = Inr v"
  then show d: "valuation.diff v = minus_bn (valuation.reward v) (minBidDusd v)"
    by (auto simp: loop_body_def Let_def split: sum.splits)
  from h show m: "valuation.margin v =
          multipliedBy (dividedBy (ROUNDING env) (valuation.diff v) (minBidDusd v)) (Finite 100)"
    by (auto simp: loop_body_def Let_def split: sum.splits)
  show "\<forall>r s. valuation.reward v = Finite r \<and> minBidDusd v = Finite s \<longrightarrow>
            (s \<noteq> 0 \<longrightarrow> valuation.margin v = Finite (ROUNDING env ((r - s) / s) * 100))
            \<and> (s = 0 \<and> r \<noteq> 0 \<longrightarrow>
                 valuation.margin v = PosInfinity \<or> valuation.margin v = NegInfinity)
            \<and> (s = 0 \<and> r = 0 \<longrightarrow> valuation.margin v = NaN)"
    unfolding m d by (auto simp: margin_cases infinity_def)
next
  assume h: "loop_body_alt env a = Inr v'"
  then show d: "valuation_alt.diff v' = minus_bn (valuation_alt.reward v') (valuation_alt.minBid v')"
    by (auto simp: loop_body_alt_def Let_def split: sum.splits)
  from h show m: "valuation_alt.margin v' =
          multipliedBy (dividedBy (ROUNDING env) (valuation_alt.diff v') (valuation_alt.minBid v'))
            (Finite 100)"
    by (auto simp: loop_body_alt_def Let_def split: sum.splits)
  show "\<forall>r s. valuation_alt.reward v' = Finite r \<and> valuation_alt.minBid v' = Finite s \<longrightarrow>
            (s \<noteq> 0 \<longrightarrow> valuation_alt.margin v' = Finite (ROUNDING env ((r - s) / s) * 100))
            \<and> (s = 0 \<and> r \<noteq> 0 \<longrightarrow>
                 valuation_alt.margin v' = PosInfinity \<or> valuation_alt.margin v' = NegInfinity)
            \<and> (s = 0 \<and> r = 0 \<longrightarrow> valuation_alt.margin v' = NaN)"
    unfolding m d by (auto simp: margin_cases infinity_def)
next
  assume h: "get_auction_list env req = Json out
      \<and> getAvailableAuctions env (parseInt (limit req)) = Inr as \<and> a \<in> set as
      \<and> loop_body env a = Inr v \<and> minBidDusd v = Finite 0 \<and> valuation.reward v = Finite r
      \<and> 1 < r \<and> valuation.margin v = PosInfinity \<and> threshold req = Finite t"
  then have "valuation.diff v = minus_bn (valuation.reward v) (minBidDusd v)"
    by (auto simp: loop_body_def Let_def split: sum.splits)
  with h have "valuation.diff v = Finite r" by (simp add: minus_bn_def)
  with h have "passes (threshold req) v"
    by (simp add: passes_def isGreaterThanOrEqualTo_def isGreaterThan_def isLessThan_def)
  with h show "\<exists>x\<in>set out. render v = Inr x"
    using passes_included [of env req out as a v] by blast
next
  assume h: "get_auction_list_alt env req = Json out'
      \<and> getAvailableAuctions env (parseInt (limit req)) = Inr as \<and> a \<in> set as
      \<and> loop_body_alt env a = Inr v' \<and> valuation_alt.margin v' = PosInfinity
      \<and> threshold req = Finite t"
  then have "passes_alt (threshold req) v'"
    by (simp add: passes_alt_def isGreaterThanOrEqualTo_def)
  with h show "render_alt v' \<in> set out'"
    using passes_alt_included [of env req out' as a v'] by blast
qed

text \<open>
  The batch with a starting bid of 105 and a reward of 126, and the batch with a loan of
  zero and a reward of 10, which both revisions report.
\<close>

theorem margin_formula_witness:
  "valuation.margin (example_row 0 (Finite 105) (Finite 126) (Finite 21) (Finite 20)
       (Some (Finite (6237 / 50))) ''100'')
     = Finite (round_half_up 20 ((126 - 105) / 105) * 100)
   \<and> (valuation_alt.margin (example_row_alt 0 (Finite 0) (Finite 10) (Finite 10) PosInfinity)
         = PosInfinity
       \<or> valuation_alt.margin (example_row_alt 0 (Finite 0) (Finite 10) (Finite 10) PosInfinity)
         = NegInfinity)
   \<and> (\<exists>x\<in>set [example_row 0 (ToString (Finite 0)) (ToString (Finite 10)) (ToString (Finite 10))
                 (ToString PosInfinity) (ToString (Finite (99 / 10))) ''0''].
        render (example_row 0 (Finite 0) (Finite 10) (Finite 10) PosInfinity
                  (Some (Finite (99 / 10))) ''0'') = Inr x)
   \<and> render_alt (example_row_alt 0 (Finite 0) (Finite 10) (Finite 10) PosInfinity)
       \<in> set [example_row_alt 0 (ToPrecision 10 (Finite 0) '' DUSD'')
                 (ToPrecision 10 (Finite 10) '' DUSD'')
                 (ToPrecision 7 (Finite 10) '' DUSD'') (ToPrecision 5 PosInfinity ''%'')]"
proof -
  let ?env = "example_env 1 [zero_vault]"
  let ?req = "example_request None"
  let ?a = "example_auction 0 ''0@DFI'' [''10@DFI''] None"
  let ?v = "example_row 0 (Finite 0) (Finite 10) (Finite 10) PosInfinity
              (Some (Finite (99 / 10))) ''0''"
  let ?v' = "example_row_alt 0 (Finite 0) (Finite 10) (Finite 10) PosInfinity"
  have r: "ROUNDING (example_env 1 [single_vault]) = round_half_up 20"
    by (simp add: example_env_def)
  have th: "threshold ?req = Finite 0" by (simp add: threshold_def example_request_def)
  have m: "?a \<in> set [?a]" by simp
  have f: "minBidDusd ?v = Finite 0 \<and> valuation.reward ?v = Finite 10 \<and> (1::rat) < 10
      \<and> valuation.margin ?v = PosInfinity \<and> threshold ?req = Finite 0"
    by (simp add: example_row_def th)
  have f': "valuation_alt.margin ?v' = PosInfinity \<and> threshold ?req = Finite 0"
    by (simp add: example_row_alt_def th)
  from margin_formula [where env = "example_env 1 [single_vault]", THEN conjunct1, rule_format,
      OF single_body, THEN conjunct2, THEN conjunct2, rule_format, of 126 105]
  have a: "valuation.margin (example_row 0 (Finite 105) (Finite 126) (Finite 21) (Finite 20)
       (Some (Finite (6237 / 50))) ''100'')
     = Finite (round_half_up 20 ((126 - 105) / 105) * 100)"
    by (simp add: example_row_def r)
  from margin_formula [where env = ?env, THEN conjunct2, THEN conjunct1, rule_format,
      OF zero_body_alt, THEN conjunct2, THEN conjunct2, rule_format, of 10 0]
  have b: "valuation_alt.margin ?v' = PosInfinity \<or> valuation_alt.margin ?v' = NegInfinity"
    by (simp add: example_row_alt_def)
  note t = margin_formula [where env = ?env and req = ?req and a = ?a and as = "[?a]"
      and v = ?v and v' = ?v' and r = 10 and t = 0]
  from t [THEN conjunct2, THEN conjunct2, THEN conjunct1, rule_format,
      OF conjI [OF zero_example conjI [OF zero_auctions conjI [OF m conjI [OF zero_body f]]]]]
  have c: "\<exists>x\<in>set [example_row 0 (ToString (Finite 0)) (ToString (Finite 10))
                 (ToString (Finite 10)) (ToString PosInfinity) (ToString (Finite (99 / 10)))
                 ''0'']. render ?v = Inr x" .
  from t [THEN conjunct2, THEN conjunct2, THEN conjunct2, rule_format,
      OF conjI [OF zero_example_alt conjI [OF zero_auctions conjI [OF m
        conjI [OF zero_body_alt f']]]]]
  have d: "render_alt ?v' \<in> set [example_row_alt 0 (ToPrecision 10 (Finite 0) '' DUSD'')
                 (ToPrecision 10 (Finite 10) '' DUSD'')
                 (ToPrecision 7 (Finite 10) '' DUSD'') (ToPrecision 5 PosInfinity ''%'')]" .
  from a b c d show ?thesis by (intro conjI)
qed

text \<open>
  A batch with a loan of zero has a starting bid of zero; with a reward of 10 its margin
  is infinite, and the batch is in the response of both revisions.
\<close>

theorem zero_starting_bid_counterexample:
  "get_auction_list (example_env 1 [zero_vault]) (example_request None) =
     Json [example_row 0 (ToString (Finite 0)) (ToString (Finite 10)) (ToString (Finite 10))
             (ToString PosInfinity) (ToString (Finite (99 / 10))) ''0'']
   \<and> get_auction_list_alt (example_env 1 [zero_vault]) (example_request None) =
     Json [example_row_alt 0 (ToPrecision 10 (Finite 0) '' DUSD'')
             (ToPrecision 10 (Finite 10) '' DUSD'')
             (ToPrecision 7 (Finite 10) '' DUSD'') (ToPrecision 5 PosInfinity ''%'')]"
  using zero_example zero_example_alt by (rule conjI)

end
